theory Spec2Isabelle
  imports Main "HOL-Library.Word"
begin

section \<open>The muscle-image endpoint (src/functions/muscle-image.js)\<close>

text \<open>
  The repository is one serverless handler. It reads five query parameters, tints one
  PNG asset per requested muscle and composites the tinted layers onto a base image.
  The raster library (sharp), the file system and the JavaScript builtin \<open>Number\<close> are
  not part of the repository: they are the fields of an environment record, and every
  call the handler makes to them is written into a trace of effects, in program order.
\<close>

subsection \<open>Data\<close>

type_synonym buffer = "8 word list"

text \<open>
  \<open>path.resolve(__dirname, rel)\<close> is kept symbolic: \<open>__dirname\<close> is fixed for a
  deployment, so a resolved path is represented by the relative string it was built from.
\<close>

datatype path = PathResolve string

text \<open>What the \<open>catch\<close> block can receive: the \<open>TypeError\<close> of destructuring a missing
  query-parameters object, or the rejection of a sharp pipeline with its message.\<close>

datatype js_error = DestructureTypeError | SharpError string

text \<open>The state of a promise once it has settled.\<close>

datatype 'a settled = Fulfilled 'a | Rejected js_error

text \<open>An entry of the array handed to \<open>composite\<close>: the object \<open>{ input: layerBuffer }\<close>.\<close>

datatype overlay = Overlay (input: buffer)

text \<open>The argument of \<open>tint\<close>: the object \<open>{ r, g, b }\<close>. A component is \<open>None\<close> when
  the colour array is too short (reading past the end of a JavaScript array gives
  \<open>undefined\<close>).\<close>

type_synonym 'n rgb = "'n option \<times> 'n option \<times> 'n option"

datatype 'n effect =
    ConsoleWarn string
  | ExistsSync path
  | SharpTint path "'n rgb"
  | SharpComposite path "overlay list"
  | ConsoleError js_error

record 'n env =
  js_Number :: "string \<Rightarrow> 'n"
  existsSync :: "path \<Rightarrow> bool"
  sharp_tint :: "path \<Rightarrow> 'n rgb \<Rightarrow> string + buffer"
  sharp_composite :: "path \<Rightarrow> overlay list \<Rightarrow> string + buffer"

text \<open>\<open>event.queryStringParameters\<close>: an object whose keys may be missing, or no object
  at all (\<open>null\<close> or \<open>undefined\<close>).\<close>

record query =
  primary_muscles :: "string option"
  secondary_muscles :: "string option"
  primary_color :: "string option"
  secondary_color :: "string option"
  transparent :: "string option"

record event =
  queryStringParameters :: "query option"

datatype body = Base64String buffer | ErrorJson (error: string) (details: js_error)

record response =
  statusCode :: nat
  headers :: "(string \<times> string) list option"
  body :: body
  isBase64Encoded :: "bool option"

subsection \<open>JavaScript builtins used by the handler\<close>

text \<open>\<open>s.split(',')\<close>: the empty string gives one empty token.\<close>

fun js_split :: "string \<Rightarrow> string list" where
  "js_split [] = [[]]"
| "js_split (c # cs) =
     (if c = CHR '','' then [] # js_split cs
      else (case js_split cs of
              [] \<Rightarrow> [[c]]
            | w # ws \<Rightarrow> (c # w) # ws))"

text \<open>\<open>Boolean(s)\<close> on a string: only the empty string is falsy.\<close>

definition js_Boolean :: "string \<Rightarrow> bool" where
  "js_Boolean s = (s \<noteq> [])"

text \<open>\<open>xs[i]\<close>: \<open>undefined\<close> past the end.\<close>

definition js_index :: "'a list \<Rightarrow> nat \<Rightarrow> 'a option" where
  "js_index xs i = (if i < length xs then Some (xs ! i) else None)"

text \<open>A destructuring default: used when the key is missing.\<close>

definition or_default :: "string option \<Rightarrow> string \<Rightarrow> string" where
  "or_default v d = (case v of None \<Rightarrow> d | Some s \<Rightarrow> s)"

text \<open>
  \<open>Promise.all\<close>. The tasks run concurrently; \<open>completion i\<close> is the time at which task
  \<open>i\<close> settles (ties go to the lower index). If no task rejects, the result is the array
  of values in the order of the tasks. Otherwise \<open>Promise.all\<close> rejects with the reason
  of the task that rejects first in time.
\<close>

fun rejections :: "nat \<Rightarrow> 'a settled list \<Rightarrow> (nat \<times> js_error) list" where
  "rejections i [] = []"
| "rejections i (Fulfilled v # ps) = rejections (Suc i) ps"
| "rejections i (Rejected e # ps) = (i, e) # rejections (Suc i) ps"

fun fulfilled :: "'a settled list \<Rightarrow> 'a list" where
  "fulfilled [] = []"
| "fulfilled (Fulfilled v # ps) = v # fulfilled ps"
| "fulfilled (Rejected e # ps) = fulfilled ps"

fun earliest :: "(nat \<Rightarrow> nat) \<Rightarrow> nat \<times> js_error \<Rightarrow> (nat \<times> js_error) list \<Rightarrow> js_error" where
  "earliest completion (i, e) [] = e"
| "earliest completion (i, e) ((j, e') # rs) =
     (if completion j < completion i then earliest completion (j, e') rs
      else earliest completion (i, e) rs)"

definition promise_all :: "(nat \<Rightarrow> nat) \<Rightarrow> 'a settled list \<Rightarrow> js_error + 'a list" where
  "promise_all completion ps =
     (case rejections 0 ps of
        [] \<Rightarrow> Inr (fulfilled ps)
      | r # rs \<Rightarrow> Inl (earliest completion r rs))"

subsection \<open>The handler\<close>

definition availableMuscleGroups :: "string list" where
  "availableMuscleGroups =
     [''all'', ''all_lower'', ''all_upper'', ''abductors'', ''abs'', ''adductors'', ''back'',
      ''back_lower'', ''back_upper'', ''biceps'', ''calfs'', ''chest'', ''core'', ''core_lower'',
      ''core_upper'', ''forearms'', ''gluteus'', ''hamstring'', ''hands'', ''latissimus'',
      ''legs'', ''neck'', ''quadriceps'', ''shoulders'', ''shoulders_back'', ''shoulders_front'',
      ''triceps'']"

definition musclePath :: "string \<Rightarrow> path" where
  "musclePath muscle = PathResolve (''../images/'' @ muscle @ ''.png'')"

text \<open>
  \<open>createTintedLayer\<close> has no \<open>await\<close>: its checks and warnings run when it is called,
  and the promise it returns settles as the sharp pipeline does.
\<close>

definition createTintedLayer ::
  "'n env \<Rightarrow> string \<Rightarrow> 'n list \<Rightarrow> 'n effect list \<times> buffer option settled" where
  "createTintedLayer env muscle rgb =
     (if muscle \<notin> set availableMuscleGroups then
        ([ConsoleWarn (''Invalid muscle group requested: '' @ muscle)], Fulfilled None)
      else if \<not> existsSync env (musclePath muscle) then
        ([ExistsSync (musclePath muscle),
          ConsoleWarn (''Image file not found for muscle: '' @ muscle)], Fulfilled None)
      else
        (let colour = (js_index rgb 0, js_index rgb 1, js_index rgb 2) in
         ([ExistsSync (musclePath muscle), SharpTint (musclePath muscle) colour],
          (case sharp_tint env (musclePath muscle) colour of
             Inl msg \<Rightarrow> Rejected (SharpError msg)
           | Inr buf \<Rightarrow> Fulfilled (Some buf)))))"

definition baseImagePath :: "string \<Rightarrow> path" where
  "baseImagePath transparent' =
     (if transparent' = ''1'' then PathResolve ''../images/baseImage_transparent.png''
      else PathResolve ''../images/baseImage.png'')"

text \<open>The loop that pushes every truthy entry of \<open>allLayers\<close> onto \<open>compositeLayers\<close>.\<close>

fun push_layers :: "overlay list \<Rightarrow> buffer option list \<Rightarrow> overlay list" where
  "push_layers compositeLayers [] = compositeLayers"
| "push_layers compositeLayers (None # rest) = push_layers compositeLayers rest"
| "push_layers compositeLayers (Some layerBuffer # rest) =
     push_layers (compositeLayers @ [Overlay layerBuffer]) rest"

text \<open>The \<open>catch\<close> block.\<close>

definition catch_block :: "'n effect list \<Rightarrow> js_error \<Rightarrow> 'n effect list \<times> response" where
  "catch_block trace err =
     (trace @ [ConsoleError err],
      \<lparr>statusCode = 500, headers = None,
       body = ErrorJson ''Failed to generate image.'' err,
       isBase64Encoded = None\<rparr>)"

text \<open>The identifier list of one group: \<open>s.split(',').filter(Boolean)\<close>.\<close>

definition muscleList :: "string \<Rightarrow> string list" where
  "muscleList s = filter js_Boolean (js_split s)"

text \<open>The colour array of one group: \<open>s.split(',').map(Number)\<close>.\<close>

definition colorRgb :: "'n env \<Rightarrow> string \<Rightarrow> 'n list" where
  "colorRgb env s = map (js_Number env) (js_split s)"

definition handler :: "'n env \<Rightarrow> (nat \<Rightarrow> nat) \<Rightarrow> event \<Rightarrow> 'n effect list \<times> response" where
  "handler env completion ev =
     (case queryStringParameters ev of
        None \<Rightarrow> catch_block [] DestructureTypeError
      | Some q \<Rightarrow>
         (let base = baseImagePath (or_default (transparent q) ''0'');
              primaryMuscles = muscleList (or_default (primary_muscles q) '''');
              secondaryMuscles = muscleList (or_default (secondary_muscles q) '''');
              primaryColorRgb = colorRgb env (or_default (primary_color q) ''255,152,0'');
              secondaryColorRgb = colorRgb env (or_default (secondary_color q) ''255,211,144'');
              primaryPromises = map (\<lambda>muscle. createTintedLayer env muscle primaryColorRgb) primaryMuscles;
              secondaryPromises = map (\<lambda>muscle. createTintedLayer env muscle secondaryColorRgb) secondaryMuscles;
              started = primaryPromises @ secondaryPromises;
              trace = concat (map fst started)
          in (case promise_all completion (map snd started) of
                Inl err \<Rightarrow> catch_block trace err
              | Inr allLayers \<Rightarrow>
                 (let compositeLayers = push_layers [] allLayers in
                  (case sharp_composite env base compositeLayers of
                     Inl msg \<Rightarrow>
                       catch_block (trace @ [SharpComposite base compositeLayers]) (SharpError msg)
                   | Inr finalImageBuffer \<Rightarrow>
                       (trace @ [SharpComposite base compositeLayers],
                        \<lparr>statusCode = 200,
                         headers = Some [(''Content-Type'', ''image/png'')],
                         body = Base64String finalImageBuffer,
                         isBase64Encoded = Some True\<rparr>))))))"

subsection \<open>Reading a request and a trace\<close>

text \<open>The values the handler binds from a query-parameters object, by name.\<close>

definition primaryMuscles :: "query \<Rightarrow> string list" where
  "primaryMuscles q = muscleList (or_default (primary_muscles q) '''')"

definition secondaryMuscles :: "query \<Rightarrow> string list" where
  "secondaryMuscles q = muscleList (or_default (secondary_muscles q) '''')"

definition primaryColorRgb :: "'n env \<Rightarrow> query \<Rightarrow> 'n list" where
  "primaryColorRgb env q = colorRgb env (or_default (primary_color q) ''255,152,0'')"

definition secondaryColorRgb :: "'n env \<Rightarrow> query \<Rightarrow> 'n list" where
  "secondaryColorRgb env q = colorRgb env (or_default (secondary_color q) ''255,211,144'')"

definition selectedBase :: "query \<Rightarrow> path" where
  "selectedBase q = baseImagePath (or_default (transparent q) ''0'')"

definition present :: "query \<Rightarrow> event" where
  "present q = \<lparr>queryStringParameters = Some q\<rparr>"

text \<open>An identifier passes validation when it is on the allow-list and its asset exists.\<close>

definition resolved :: "'n env \<Rightarrow> string \<Rightarrow> bool" where
  "resolved env muscle =
     (muscle \<in> set availableMuscleGroups \<and> existsSync env (musclePath muscle))"

definition tintArg :: "'n list \<Rightarrow> 'n rgb" where
  "tintArg rgb = (js_index rgb 0, js_index rgb 1, js_index rgb 2)"

text \<open>The layer an identifier contributes, and the message of its tint pipeline when
  that pipeline rejects.\<close>

definition tinted :: "'n env \<Rightarrow> 'n list \<Rightarrow> string \<Rightarrow> buffer option" where
  "tinted env rgb muscle =
     (if resolved env muscle then
        (case sharp_tint env (musclePath muscle) (tintArg rgb) of
           Inl msg \<Rightarrow> None
         | Inr buf \<Rightarrow> Some buf)
      else None)"

definition tintError :: "'n env \<Rightarrow> 'n list \<Rightarrow> string \<Rightarrow> string option" where
  "tintError env rgb muscle =
     (if resolved env muscle then
        (case sharp_tint env (musclePath muscle) (tintArg rgb) of
           Inl msg \<Rightarrow> Some msg
         | Inr buf \<Rightarrow> None)
      else None)"

text \<open>The tinted layers of a request in request order: primary first, then secondary,
  each group in the order of its list.\<close>

definition requestOrderLayers :: "'n env \<Rightarrow> query \<Rightarrow> buffer list" where
  "requestOrderLayers env q =
     List.map_filter (tinted env (primaryColorRgb env q)) (primaryMuscles q) @
     List.map_filter (tinted env (secondaryColorRgb env q)) (secondaryMuscles q)"

definition tintErrors :: "'n env \<Rightarrow> query \<Rightarrow> string list" where
  "tintErrors env q =
     List.map_filter (tintError env (primaryColorRgb env q)) (primaryMuscles q) @
     List.map_filter (tintError env (secondaryColorRgb env q)) (secondaryMuscles q)"

text \<open>What the calls of \<open>createTintedLayer\<close> write into the trace, and the promises
  they return.\<close>

definition startTrace :: "'n env \<Rightarrow> query \<Rightarrow> 'n effect list" where
  "startTrace env q =
     concat (map (\<lambda>muscle. fst (createTintedLayer env muscle (primaryColorRgb env q)))
               (primaryMuscles q)) @
     concat (map (\<lambda>muscle. fst (createTintedLayer env muscle (secondaryColorRgb env q)))
               (secondaryMuscles q))"

definition settledTasks :: "'n env \<Rightarrow> query \<Rightarrow> buffer option settled list" where
  "settledTasks env q =
     map (\<lambda>muscle. snd (createTintedLayer env muscle (primaryColorRgb env q)))
       (primaryMuscles q) @
     map (\<lambda>muscle. snd (createTintedLayer env muscle (secondaryColorRgb env q)))
       (secondaryMuscles q)"

definition pngResponse :: "buffer \<Rightarrow> response" where
  "pngResponse buf =
     \<lparr>statusCode = 200, headers = Some [(''Content-Type'', ''image/png'')],
      body = Base64String buf, isBase64Encoded = Some True\<rparr>"

definition errorResponse :: "js_error \<Rightarrow> response" where
  "errorResponse err =
     \<lparr>statusCode = 500, headers = None,
      body = ErrorJson ''Failed to generate image.'' err, isBase64Encoded = None\<rparr>"

text \<open>Projections of a trace.\<close>

definition collect :: "('a \<Rightarrow> 'b list) \<Rightarrow> 'a list \<Rightarrow> 'b list" where
  "collect f es = concat (map f es)"

fun compositeCall :: "'n effect \<Rightarrow> (path \<times> overlay list) list" where
  "compositeCall (SharpComposite p layers) = [(p, layers)]"
| "compositeCall e = []"

fun tintCall :: "'n effect \<Rightarrow> (path \<times> 'n rgb) list" where
  "tintCall (SharpTint p colour) = [(p, colour)]"
| "tintCall e = []"

fun touchedPath :: "'n effect \<Rightarrow> path list" where
  "touchedPath (ExistsSync p) = [p]"
| "touchedPath (SharpTint p colour) = [p]"
| "touchedPath (SharpComposite p layers) = [p]"
| "touchedPath e = []"

fun warning :: "'n effect \<Rightarrow> string list" where
  "warning (ConsoleWarn w) = [w]"
| "warning e = []"

fun loggedError :: "'n effect \<Rightarrow> js_error list" where
  "loggedError (ConsoleError err) = [err]"
| "loggedError e = []"

subsection \<open>Example environments and requests\<close>

text \<open>
  A stand-in for \<open>Number\<close> on the strings the examples below use: a short string of
  decimal digits is its value, the empty string is 0, and \<open>abc\<close> is not a number. It
  does not read the other numeric literals of JavaScript (signs, fractions, exponents,
  hexadecimal), which no example uses; the theorems are about every \<open>js_Number\<close>.
\<close>

datatype js_number = NaN | Finite nat

definition digitValue :: "char \<Rightarrow> nat option" where
  "digitValue c =
     map_of [(CHR ''0'', 0), (CHR ''1'', 1), (CHR ''2'', 2), (CHR ''3'', 3), (CHR ''4'', 4),
             (CHR ''5'', 5), (CHR ''6'', 6), (CHR ''7'', 7), (CHR ''8'', 8), (CHR ''9'', 9)] c"

fun digitsValue :: "nat \<Rightarrow> string \<Rightarrow> js_number" where
  "digitsValue acc [] = Finite acc"
| "digitsValue acc (c # cs) =
     (case digitValue c of
        None \<Rightarrow> NaN
      | Some d \<Rightarrow> digitsValue (10 * acc + d) cs)"

text \<open>
  An installation in which the assets of biceps, chest, abs and calfs exist, the first
  two decode, and the last two are damaged files that sharp rejects with different
  messages. The composite is the base's marker byte followed by the bytes of the layers
  in the order given, so it shows the stacking order.
\<close>

definition sampleEnv :: "js_number env" where
  "sampleEnv =
     \<lparr>js_Number = digitsValue 0,
      existsSync = (\<lambda>p. p \<in> set [musclePath ''biceps'', musclePath ''chest'',
                                  musclePath ''abs'', musclePath ''calfs'']),
      sharp_tint = (\<lambda>p colour.
         if p = musclePath ''biceps'' then Inr [1]
         else if p = musclePath ''chest'' then Inr [2]
         else if p = musclePath ''abs'' then Inl ''pngload: end of stream''
         else Inl ''Input file contains unsupported image format''),
      sharp_composite = (\<lambda>p layers.
         Inr ((if p = PathResolve ''../images/baseImage_transparent.png'' then 0 else 255)
              # concat (map input layers)))\<rparr>"

definition noParameters :: query where
  "noParameters =
     \<lparr>primary_muscles = None, secondary_muscles = None, primary_color = None,
      secondary_color = None, transparent = None\<rparr>"

text \<open>A request with an empty entry, an unknown identifier and a repeated one.\<close>

definition stackedRequest :: query where
  "stackedRequest =
     noParameters\<lparr>primary_muscles := Some ''biceps,,nope,biceps,chest'',
                  secondary_muscles := Some ''biceps''\<rparr>"

text \<open>The query parameters with every missing key replaced by its documented default.\<close>

definition documentedDefaults :: "query \<Rightarrow> query" where
  "documentedDefaults q =
     \<lparr>primary_muscles = (case primary_muscles q of None \<Rightarrow> Some '''' | Some s \<Rightarrow> Some s),
      secondary_muscles = (case secondary_muscles q of None \<Rightarrow> Some '''' | Some s \<Rightarrow> Some s),
      primary_color = (case primary_color q of None \<Rightarrow> Some ''255,152,0'' | Some s \<Rightarrow> Some s),
      secondary_color =
        (case secondary_color q of None \<Rightarrow> Some ''255,211,144'' | Some s \<Rightarrow> Some s),
      transparent = (case transparent q of None \<Rightarrow> Some ''0'' | Some s \<Rightarrow> Some s)\<rparr>"

text \<open>A request in which every entry is empty, blank or unknown.\<close>

definition nothingValidRequest :: query where
  "nothingValidRequest =
     noParameters\<lparr>primary_muscles := Some '',nope,, '', secondary_muscles := Some ''triceps'',
                  transparent := Some ''1''\<rparr>"

text \<open>The spec's example of an unknown identifier mixed into a valid list, with an
  allow-listed identifier that has no asset in the secondary list.\<close>

definition mixedRequest :: query where
  "mixedRequest =
     noParameters\<lparr>primary_muscles := Some ''biceps,not_a_muscle'',
                  secondary_muscles := Some ''triceps''\<rparr>"

text \<open>A request for one sound layer and one whose asset is damaged.\<close>

definition damagedLayerRequest :: query where
  "damagedLayerRequest = noParameters\<lparr>primary_muscles := Some ''biceps,abs''\<rparr>"

text \<open>The same installation with a base image that sharp cannot read.\<close>

definition brokenBaseEnv :: "js_number env" where
  "brokenBaseEnv = sampleEnv\<lparr>sharp_composite := (\<lambda>p layers. Inl ''Input file is missing'')\<rparr>"

text \<open>Every path the handler may build: the two base images and one asset per entry of
  the allow-list.\<close>

definition allowedPaths :: "path list" where
  "allowedPaths =
     PathResolve ''../images/baseImage_transparent.png'' #
     PathResolve ''../images/baseImage.png'' #
     map musclePath availableMuscleGroups"

text \<open>A request that tries to leave the image directory.\<close>

definition traversalRequest :: query where
  "traversalRequest =
     noParameters\<lparr>primary_muscles := Some ''../../etc/passwd,biceps'',
                  secondary_muscles := Some ''baseImage''\<rparr>"

text \<open>A request whose primary colour has a non-numeric component and only two
  components.\<close>

definition malformedColourRequest :: query where
  "malformedColourRequest =
     noParameters\<lparr>primary_muscles := Some ''biceps'', primary_color := Some ''255,abc''\<rparr>"

text \<open>\<open>ts.join(',')\<close>, the inverse of \<open>split(',')\<close>.\<close>

fun joinComma :: "string list \<Rightarrow> string" where
  "joinComma [] = []"
| "joinComma [t] = t"
| "joinComma (t # ts) = t @ CHR '','' # joinComma ts"

text \<open>A blank entry: not empty, and nothing in it but spaces, tabs and line ends.\<close>

definition isBlank :: "string \<Rightarrow> bool" where
  "isBlank t = (t \<noteq> [] \<and> set t \<subseteq> {CHR '' '', CHR 0x09, CHR 0x0A, CHR 0x0D})"

text \<open>A request with a blank entry between two commas.\<close>

definition blankEntryRequest :: query where
  "blankEntryRequest = noParameters\<lparr>primary_muscles := Some ''biceps, ,chest''\<rparr>"

text \<open>A request for two layers whose assets are both damaged, and a run in which the
  tint tasks settle in the reverse of the order in which they were started.\<close>

definition twoDamagedRequest :: query where
  "twoDamagedRequest = noParameters\<lparr>primary_muscles := Some ''abs,calfs''\<rparr>"

definition reversedCompletion :: "nat \<Rightarrow> nat" where
  "reversedCompletion i = 100 - i"

text \<open>The same installation with a tint that rejects a colour unless its three
  components are numbers, as some versions of sharp do.\<close>

definition nanRejectingEnv :: "js_number env" where
  "nanRejectingEnv =
     sampleEnv\<lparr>sharp_tint := (\<lambda>p colour.
        case colour of
          (Some (Finite r), Some (Finite g), Some (Finite b)) \<Rightarrow> sharp_tint sampleEnv p colour
        | _ \<Rightarrow> Inl ''Unable to parse colour'')\<rparr>"

text \<open>The request of \<open>malformedColourRequest\<close> with a colour of three numbers.\<close>

definition wellFormedColourRequest :: query where
  "wellFormedColourRequest =
     noParameters\<lparr>primary_muscles := Some ''biceps'', primary_color := Some ''255,0,0''\<rparr>"

text \<open>A query-parameters object with all five keys.\<close>

definition allSupplied :: "string \<Rightarrow> string \<Rightarrow> string \<Rightarrow> string \<Rightarrow> string \<Rightarrow> query" where
  "allSupplied pm sm pc sc t =
     \<lparr>primary_muscles = Some pm, secondary_muscles = Some sm, primary_color = Some pc,
      secondary_color = Some sc, transparent = Some t\<rparr>"

section \<open>Properties\<close>

subsection \<open>Lists, promises and the loop over the layers\<close>

lemma collect_append: "collect f (xs @ ys) = collect f xs @ collect f ys"
  by (simp add: collect_def)

lemma collect_concat_map:
  "collect f (concat (map g xs)) = concat (map (\<lambda>x. collect f (g x)) xs)"
  by (induction xs) (simp_all add: collect_def)

lemma map_filter_Nil_iff:
  "List.map_filter f xs = [] \<longleftrightarrow> (\<forall>x\<in>set xs. f x = None)"
  by (induction xs) (auto simp: List.map_filter_simps split: option.splits)

lemma set_map_filter: "set (List.map_filter f xs) = {y. \<exists>x\<in>set xs. f x = Some y}"
  by (induction xs) (auto simp: List.map_filter_simps split: option.splits)

lemma map_filter_id_map: "List.map_filter id (map f xs) = List.map_filter f xs"
  by (induction xs) (auto simp: List.map_filter_simps split: option.splits)

lemma map_filter_append:
  "List.map_filter f (xs @ ys) = List.map_filter f xs @ List.map_filter f ys"
  by (simp add: List.map_filter_def)

lemma push_layers_acc:
  "push_layers acc ls = acc @ map Overlay (List.map_filter id ls)"
proof (induction ls arbitrary: acc)
  case Nil
  show ?case by (simp add: List.map_filter_simps)
next
  case (Cons l ls)
  show ?case by (cases l) (simp_all add: Cons.IH List.map_filter_simps)
qed

lemma rejections_Fulfilled: "rejections i (map Fulfilled vs) = []"
  by (induction vs arbitrary: i) simp_all

lemma fulfilled_Fulfilled: "fulfilled (map Fulfilled vs) = vs"
  by (induction vs) simp_all

lemma rejections_Nil:
  "rejections i ps = [] \<Longrightarrow> ps = map Fulfilled (fulfilled ps)"
proof (induction ps arbitrary: i)
  case Nil
  show ?case by simp
next
  case (Cons p ps)
  then show ?case by (cases p) simp_all
qed

lemma rejections_errors:
  "snd ` set (rejections i ps) = {e. Rejected e \<in> set ps}"
proof (induction ps arbitrary: i)
  case Nil
  show ?case by simp
next
  case (Cons p ps)
  show ?case by (cases p) (auto simp: Cons.IH)
qed

lemma earliest_mem: "earliest c r rs \<in> snd ` set (r # rs)"
proof (induction c r rs rule: earliest.induct)
  case (1 c i e)
  show ?case by simp
next
  case (2 c i e j e' rs)
  then show ?case by auto
qed

lemma promise_all_Inr_iff:
  "promise_all c ps = Inr vs \<longleftrightarrow> ps = map Fulfilled vs"
proof
  assume "promise_all c ps = Inr vs"
  then have "rejections 0 ps = []" and "fulfilled ps = vs"
    by (auto simp: promise_all_def split: list.splits)
  then show "ps = map Fulfilled vs"
    using rejections_Nil [of 0 ps] by simp
next
  assume "ps = map Fulfilled vs"
  then show "promise_all c ps = Inr vs"
    by (simp add: promise_all_def rejections_Fulfilled fulfilled_Fulfilled)
qed

lemma promise_all_Inl:
  assumes "promise_all c ps = Inl e"
  shows "Rejected e \<in> set ps"
proof -
  from assms obtain r rs where rs: "rejections 0 ps = r # rs" and e: "e = earliest c r rs"
    by (auto simp: promise_all_def split: list.splits)
  have "e \<in> snd ` set (rejections 0 ps)"
    unfolding rs e by (rule earliest_mem)
  then show ?thesis by (simp add: rejections_errors)
qed

subsection \<open>The handler in terms of its request\<close>

lemma createTintedLayer_settles:
  "snd (createTintedLayer env muscle rgb) =
     (case tintError env rgb muscle of
        Some msg \<Rightarrow> Rejected (SharpError msg)
      | None \<Rightarrow> Fulfilled (tinted env rgb muscle))"
  by (simp add: createTintedLayer_def tintError_def tinted_def resolved_def tintArg_def
      Let_def split: sum.splits)

lemma handler_present:
  "handler env c (present q) =
     (case promise_all c (settledTasks env q) of
        Inl err \<Rightarrow> catch_block (startTrace env q) err
      | Inr allLayers \<Rightarrow>
          (case sharp_composite env (selectedBase q) (push_layers [] allLayers) of
             Inl msg \<Rightarrow>
               catch_block (startTrace env q @
                  [SharpComposite (selectedBase q) (push_layers [] allLayers)]) (SharpError msg)
           | Inr buf \<Rightarrow>
               (startTrace env q @ [SharpComposite (selectedBase q) (push_layers [] allLayers)],
                pngResponse buf)))"
  by (simp add: handler_def present_def Let_def settledTasks_def startTrace_def
      primaryMuscles_def secondaryMuscles_def primaryColorRgb_def secondaryColorRgb_def
      selectedBase_def pngResponse_def comp_def split: sum.splits)

lemma settled_no_error:
  assumes "\<forall>m\<in>set ms. tintError env rgb m = None"
  shows "map (\<lambda>m. snd (createTintedLayer env m rgb)) ms =
         map Fulfilled (map (tinted env rgb) ms)"
  using assms by (simp add: createTintedLayer_settles)

lemma settledTasks_no_error:
  assumes "tintErrors env q = []"
  shows "settledTasks env q =
     map Fulfilled (map (tinted env (primaryColorRgb env q)) (primaryMuscles q) @
                    map (tinted env (secondaryColorRgb env q)) (secondaryMuscles q))"
  using assms
  by (simp add: settledTasks_def tintErrors_def map_filter_Nil_iff settled_no_error)

lemma Rejected_settled_list:
  "Rejected e \<in> (\<lambda>m. snd (createTintedLayer env m rgb)) ` set ms \<longleftrightarrow>
     (\<exists>msg\<in>set (List.map_filter (tintError env rgb) ms). e = SharpError msg)"
proof
  assume "Rejected e \<in> (\<lambda>m. snd (createTintedLayer env m rgb)) ` set ms"
  then obtain m where m: "m \<in> set ms" and r: "snd (createTintedLayer env m rgb) = Rejected e"
    by (auto simp: image_iff)
  from r obtain msg where "tintError env rgb m = Some msg" and "e = SharpError msg"
    by (auto simp: createTintedLayer_settles split: option.splits)
  with m show "\<exists>msg\<in>set (List.map_filter (tintError env rgb) ms). e = SharpError msg"
    by (auto simp: set_map_filter)
next
  assume "\<exists>msg\<in>set (List.map_filter (tintError env rgb) ms). e = SharpError msg"
  then obtain m msg where m: "m \<in> set ms" and t: "tintError env rgb m = Some msg"
    and e: "e = SharpError msg"
    by (auto simp: set_map_filter)
  from t e have "snd (createTintedLayer env m rgb) = Rejected e"
    by (simp add: createTintedLayer_settles)
  with m show "Rejected e \<in> (\<lambda>m. snd (createTintedLayer env m rgb)) ` set ms"
    by (metis image_eqI)
qed

lemma Rejected_settledTasks:
  "Rejected e \<in> set (settledTasks env q) \<longleftrightarrow>
     (\<exists>msg\<in>set (tintErrors env q). e = SharpError msg)"
  unfolding settledTasks_def tintErrors_def set_append set_map Un_iff Rejected_settled_list
  by blast

lemma handler_tints_ok:
  assumes "tintErrors env q = []"
  shows "handler env c (present q) =
     (case sharp_composite env (selectedBase q) (map Overlay (requestOrderLayers env q)) of
        Inl msg \<Rightarrow>
          catch_block (startTrace env q @
            [SharpComposite (selectedBase q) (map Overlay (requestOrderLayers env q))])
            (SharpError msg)
      | Inr buf \<Rightarrow>
          (startTrace env q @
            [SharpComposite (selectedBase q) (map Overlay (requestOrderLayers env q))],
           pngResponse buf))"
proof -
  let ?vs = "map (tinted env (primaryColorRgb env q)) (primaryMuscles q) @
             map (tinted env (secondaryColorRgb env q)) (secondaryMuscles q)"
  have "promise_all c (settledTasks env q) = Inr ?vs"
    using settledTasks_no_error [OF assms] by (simp only: promise_all_Inr_iff)
  moreover have "push_layers [] ?vs = map Overlay (requestOrderLayers env q)"
    by (simp add: push_layers_acc requestOrderLayers_def map_filter_append map_filter_id_map)
  ultimately show ?thesis
    by (simp add: handler_present split: sum.splits)
qed

lemma handler_tint_rejected:
  assumes "tintErrors env q \<noteq> []"
  shows "\<exists>msg\<in>set (tintErrors env q).
           handler env c (present q) = catch_block (startTrace env q) (SharpError msg)"
proof (cases "promise_all c (settledTasks env q)")
  case (Inl e)
  then have "Rejected e \<in> set (settledTasks env q)"
    by (rule promise_all_Inl)
  then obtain msg where "msg \<in> set (tintErrors env q)" and "e = SharpError msg"
    by (auto simp: Rejected_settledTasks)
  with Inl show ?thesis
    by (auto simp: handler_present)
next
  case (Inr vs)
  then have "settledTasks env q = map Fulfilled vs"
    by (simp only: promise_all_Inr_iff)
  then have "\<forall>e. Rejected e \<notin> set (settledTasks env q)"
    by auto
  moreover from assms obtain msg where "msg \<in> set (tintErrors env q)"
    by (cases "tintErrors env q") auto
  ultimately show ?thesis
    by (auto simp: Rejected_settledTasks)
qed

lemma catch_block_eq: "catch_block trace err = (trace @ [ConsoleError err], errorResponse err)"
  by (simp add: catch_block_def errorResponse_def)

lemma createTintedLayer_no_composite:
  "collect compositeCall (fst (createTintedLayer env muscle rgb)) = []"
  by (simp add: createTintedLayer_def collect_def Let_def)

lemma startTrace_no_composite: "collect compositeCall (startTrace env q) = []"
  by (simp add: startTrace_def collect_append collect_concat_map createTintedLayer_no_composite)

lemma handler_composite_calls:
  "collect compositeCall (fst (handler env completion (present q))) =
     (if tintErrors env q = []
      then [(selectedBase q, map Overlay (requestOrderLayers env q))]
      else [])"
proof (cases "tintErrors env q = []")
  case True
  then show ?thesis
    by (simp add: handler_tints_ok catch_block_eq collect_append startTrace_no_composite
        split: sum.splits)
      (simp add: collect_def)
next
  case False
  from handler_tint_rejected [OF False, of completion]
  obtain msg where "handler env completion (present q) =
      catch_block (startTrace env q) (SharpError msg)"
    by blast
  with False show ?thesis
    by (simp add: catch_block_eq collect_append startTrace_no_composite)
      (simp add: collect_def)
qed

lemma handler_absent:
  "handler env c \<lparr>queryStringParameters = None\<rparr> =
     ([ConsoleError DestructureTypeError], errorResponse DestructureTypeError)"
  by (simp add: handler_def catch_block_eq)

lemma or_default_documented:
  "or_default (primary_muscles (documentedDefaults q)) d1 = or_default (primary_muscles q) ''''"
  "or_default (secondary_muscles (documentedDefaults q)) d2 = or_default (secondary_muscles q) ''''"
  "or_default (primary_color (documentedDefaults q)) d3 = or_default (primary_color q) ''255,152,0''"
  "or_default (secondary_color (documentedDefaults q)) d4 =
     or_default (secondary_color q) ''255,211,144''"
  "or_default (transparent (documentedDefaults q)) d5 = or_default (transparent q) ''0''"
  by (simp_all add: documentedDefaults_def or_default_def split: option.splits)

subsection \<open>Stacking order\<close>

text \<open>
  C1, as the claim states it, fails: it speaks of every request, but when the tint
  pipeline of one layer rejects, the layers that were tinted successfully are not
  composited. Here the layer of biceps is tinted, the asset of abs is damaged, and the
  composite is never called.
\<close>

theorem tinted_layer_dropped_when_another_rejects:
  "tinted sampleEnv (primaryColorRgb sampleEnv damagedLayerRequest) ''biceps'' = Some [1] \<and>
   requestOrderLayers sampleEnv damagedLayerRequest = [[1]] \<and>
   tintErrors sampleEnv damagedLayerRequest = [''pngload: end of stream''] \<and>
   collect compositeCall (fst (handler sampleEnv id (present damagedLayerRequest))) = []"
  by code_simp

text \<open>
  C1, amended. For every request in which no tint pipeline rejects, the layers handed to
  the composite are the successfully tinted layers in request order: those of the
  primary list in the order of that list, then those of the secondary list in the order
  of that list, identifiers that fail validation being skipped and a repeated identifier
  giving one layer per occurrence. This holds for every completion order of the tint
  tasks; the composite is called once, with this list, and what it returns is the body.
  When a tint pipeline rejects, the composite is not called and the status is 500.
\<close>

theorem layers_composited_in_request_order:
  "collect compositeCall (fst (handler env completion (present q))) =
     (if tintErrors env q = []
      then [(selectedBase q,
             map Overlay
               (List.map_filter (tinted env (primaryColorRgb env q)) (primaryMuscles q) @
                List.map_filter (tinted env (secondaryColorRgb env q)) (secondaryMuscles q)))]
      else []) \<and>
   (tintErrors env q = [] \<and>
    sharp_composite env (selectedBase q) (map Overlay (requestOrderLayers env q)) = Inr buf \<longrightarrow>
      body (snd (handler env completion (present q))) = Base64String buf) \<and>
   (tintErrors env q \<noteq> [] \<longrightarrow>
      statusCode (snd (handler env completion (present q))) = 500)"
proof (intro conjI)
  show "collect compositeCall (fst (handler env completion (present q))) =
     (if tintErrors env q = []
      then [(selectedBase q,
             map Overlay
               (List.map_filter (tinted env (primaryColorRgb env q)) (primaryMuscles q) @
                List.map_filter (tinted env (secondaryColorRgb env q)) (secondaryMuscles q)))]
      else [])"
    using handler_composite_calls [of env completion q]
    by (simp add: requestOrderLayers_def)
next
  show "tintErrors env q = [] \<and>
    sharp_composite env (selectedBase q) (map Overlay (requestOrderLayers env q)) = Inr buf \<longrightarrow>
      body (snd (handler env completion (present q))) = Base64String buf"
    by (simp add: handler_tints_ok pngResponse_def)
next
  show "tintErrors env q \<noteq> [] \<longrightarrow>
      statusCode (snd (handler env completion (present q))) = 500"
  proof
    assume "tintErrors env q \<noteq> []"
    from handler_tint_rejected [OF this, of completion]
    obtain msg where
      "handler env completion (present q) = catch_block (startTrace env q) (SharpError msg)"
      by blast
    then show "statusCode (snd (handler env completion (present q))) = 500"
      by (simp add: catch_block_eq errorResponse_def)
  qed
qed

theorem layers_composited_in_request_order_witness:
  "tintErrors sampleEnv stackedRequest = [] \<and>
   collect compositeCall (fst (handler sampleEnv id (present stackedRequest))) =
     [(PathResolve ''../images/baseImage.png'',
       [Overlay [1], Overlay [1], Overlay [2], Overlay [1]])] \<and>
   body (snd (handler sampleEnv id (present stackedRequest))) =
     Base64String [255, 1, 1, 2, 1] \<and>
   tintErrors sampleEnv damagedLayerRequest \<noteq> [] \<and>
   collect compositeCall (fst (handler sampleEnv id (present damagedLayerRequest))) = [] \<and>
   statusCode (snd (handler sampleEnv id (present damagedLayerRequest))) = 500"
proof -
  have ok: "tintErrors sampleEnv stackedRequest = []"
    by code_simp
  have layers: "requestOrderLayers sampleEnv stackedRequest = [[1], [1], [2], [1]]"
    by code_simp
  then have layers':
    "List.map_filter (tinted sampleEnv (primaryColorRgb sampleEnv stackedRequest))
       (primaryMuscles stackedRequest) @
     List.map_filter (tinted sampleEnv (secondaryColorRgb sampleEnv stackedRequest))
       (secondaryMuscles stackedRequest) = [[1], [1], [2], [1]]"
    by (simp add: requestOrderLayers_def)
  have base: "selectedBase stackedRequest = PathResolve ''../images/baseImage.png''"
    by code_simp
  have png: "sharp_composite sampleEnv (selectedBase stackedRequest)
      (map Overlay (requestOrderLayers sampleEnv stackedRequest)) = Inr [255, 1, 1, 2, 1]"
    unfolding layers base by code_simp
  have bad: "tintErrors sampleEnv damagedLayerRequest = [''pngload: end of stream'']"
    by code_simp
  show ?thesis
    using layers_composited_in_request_order
      [of sampleEnv id stackedRequest "[255, 1, 1, 2, 1]"]
      layers_composited_in_request_order [of sampleEnv id damagedLayerRequest "[]"]
      ok layers' base png bad
    by simp
qed

subsection \<open>The base canvas\<close>

text \<open>
  C6. The base canvas is the transparent asset exactly when the \<open>transparent\<close> parameter
  is the string \<open>1\<close>, and the opaque asset for every other value and when the parameter
  is absent. The composite is never started from any other image.
\<close>

theorem base_canvas_selection:
  "map fst (collect compositeCall (fst (handler env completion (present q)))) =
     (if tintErrors env q = [] then [selectedBase q] else []) \<and>
   (selectedBase q = PathResolve ''../images/baseImage_transparent.png''
      \<longleftrightarrow> transparent q = Some ''1'') \<and>
   (selectedBase q = PathResolve ''../images/baseImage.png''
      \<longleftrightarrow> transparent q \<noteq> Some ''1'')"
  by (simp add: handler_composite_calls)
    (simp add: selectedBase_def baseImagePath_def or_default_def split: option.splits)

theorem base_canvas_selection_witness:
  "selectedBase (noParameters\<lparr>transparent := Some ''1''\<rparr>) =
     PathResolve ''../images/baseImage_transparent.png'' \<and>
   selectedBase (noParameters\<lparr>transparent := Some ''0''\<rparr>) =
     PathResolve ''../images/baseImage.png'' \<and>
   selectedBase noParameters = PathResolve ''../images/baseImage.png'' \<and>
   selectedBase (noParameters\<lparr>transparent := Some ''true''\<rparr>) =
     PathResolve ''../images/baseImage.png'' \<and>
   map fst (collect compositeCall
      (fst (handler sampleEnv id (present (noParameters\<lparr>transparent := Some ''1''\<rparr>))))) =
     [PathResolve ''../images/baseImage_transparent.png'']"
proof -
  have ok: "tintErrors sampleEnv (noParameters\<lparr>transparent := Some ''1''\<rparr>) = []"
    by code_simp
  show ?thesis
    using base_canvas_selection [of sampleEnv id "noParameters\<lparr>transparent := Some ''1''\<rparr>"]
      base_canvas_selection [of sampleEnv id "noParameters\<lparr>transparent := Some ''0''\<rparr>"]
      base_canvas_selection [of sampleEnv id noParameters]
      base_canvas_selection [of sampleEnv id "noParameters\<lparr>transparent := Some ''true''\<rparr>"]
      ok
    by (simp add: noParameters_def)
qed

lemma concat_map_if:
  "concat (map (\<lambda>x. if P x then [f x] else []) xs) = map f (filter P xs)"
  by (induction xs) simp_all

lemma createTintedLayer_tint_calls:
  "collect tintCall (fst (createTintedLayer env muscle rgb)) =
     (if resolved env muscle then [(musclePath muscle, tintArg rgb)] else [])"
  by (simp add: createTintedLayer_def collect_def Let_def resolved_def tintArg_def)

lemma createTintedLayer_warnings:
  "collect warning (fst (createTintedLayer env muscle rgb)) =
     (if muscle \<notin> set availableMuscleGroups
        then [''Invalid muscle group requested: '' @ muscle]
      else if \<not> existsSync env (musclePath muscle)
        then [''Image file not found for muscle: '' @ muscle]
      else [])"
  by (simp add: createTintedLayer_def collect_def Let_def)

lemma createTintedLayer_no_error:
  "collect loggedError (fst (createTintedLayer env muscle rgb)) = []"
  by (simp add: createTintedLayer_def collect_def Let_def)

lemma startTrace_tint_calls:
  "collect tintCall (startTrace env q) =
     map (\<lambda>m. (musclePath m, tintArg (primaryColorRgb env q)))
       (filter (resolved env) (primaryMuscles q)) @
     map (\<lambda>m. (musclePath m, tintArg (secondaryColorRgb env q)))
       (filter (resolved env) (secondaryMuscles q))"
  by (simp add: startTrace_def collect_append collect_concat_map createTintedLayer_tint_calls
      concat_map_if)

lemma startTrace_no_error: "collect loggedError (startTrace env q) = []"
  by (simp add: startTrace_def collect_append collect_concat_map createTintedLayer_no_error)

lemma handler_cases:
  "(\<exists>msg\<in>set (tintErrors env q).
      handler env c (present q) =
        (startTrace env q @ [ConsoleError (SharpError msg)], errorResponse (SharpError msg))) \<or>
   (tintErrors env q = [] \<and>
    (\<exists>msg. sharp_composite env (selectedBase q) (map Overlay (requestOrderLayers env q)) = Inl msg \<and>
       handler env c (present q) =
        (startTrace env q @
           [SharpComposite (selectedBase q) (map Overlay (requestOrderLayers env q)),
            ConsoleError (SharpError msg)],
         errorResponse (SharpError msg)))) \<or>
   (tintErrors env q = [] \<and>
    (\<exists>buf. sharp_composite env (selectedBase q) (map Overlay (requestOrderLayers env q)) = Inr buf \<and>
       handler env c (present q) =
        (startTrace env q @
           [SharpComposite (selectedBase q) (map Overlay (requestOrderLayers env q))],
         pngResponse buf)))"
proof (cases "tintErrors env q = []")
  case True
  show ?thesis
  proof (cases "sharp_composite env (selectedBase q) (map Overlay (requestOrderLayers env q))")
    case (Inl msg)
    with True show ?thesis
      by (simp add: handler_tints_ok catch_block_eq)
  next
    case (Inr buf)
    with True show ?thesis
      by (simp add: handler_tints_ok)
  qed
next
  case False
  from handler_tint_rejected [OF False, of c] show ?thesis
    by (simp add: catch_block_eq)
qed

lemma handler_tint_calls:
  "collect tintCall (fst (handler env c (present q))) = collect tintCall (startTrace env q)"
  using handler_cases [of env q c]
  by (auto simp: collect_append) (simp_all add: collect_def)

lemma unresolved_no_layer:
  assumes "\<forall>m\<in>set ms. \<not> resolved env m"
  shows "List.map_filter (tinted env rgb) ms = []"
    and "List.map_filter (tintError env rgb) ms = []"
  using assms by (simp_all add: map_filter_Nil_iff tinted_def tintError_def)

lemma map_filter_filter:
  assumes "\<And>x. \<not> P x \<Longrightarrow> f x = None"
  shows "List.map_filter f (filter P xs) = List.map_filter f xs"
  by (induction xs) (auto simp: List.map_filter_simps assms split: option.splits)

lemma map_filter_resolved:
  "List.map_filter (tinted env rgb) (filter (resolved env) ms) = List.map_filter (tinted env rgb) ms"
  "List.map_filter (tintError env rgb) (filter (resolved env) ms) =
     List.map_filter (tintError env rgb) ms"
  by (rule map_filter_filter, simp add: tinted_def tintError_def)+

subsection \<open>Requests without a valid muscle\<close>

text \<open>
  C5. When both lists are empty, or hold only entries that are dropped or fail
  validation, no tint is started, the composite is called on the selected base with no
  layers, and its output (the base canvas re-encoded as PNG) is returned with the
  success status. The base asset is taken to decode: the second premise.
\<close>

theorem no_valid_muscle_renders_base:
  assumes "\<forall>m\<in>set (primaryMuscles q @ secondaryMuscles q). \<not> resolved env m"
    and "sharp_composite env (selectedBase q) [] = Inr buf"
  shows "snd (handler env completion (present q)) = pngResponse buf \<and>
         collect compositeCall (fst (handler env completion (present q))) = [(selectedBase q, [])] \<and>
         collect tintCall (fst (handler env completion (present q))) = []"
proof -
  from assms(1) have p: "\<forall>m\<in>set (primaryMuscles q). \<not> resolved env m"
    and s: "\<forall>m\<in>set (secondaryMuscles q). \<not> resolved env m"
    by simp_all
  have none: "tintErrors env q = []" and layers: "requestOrderLayers env q = []"
    by (simp_all add: tintErrors_def requestOrderLayers_def unresolved_no_layer [OF p]
        unresolved_no_layer [OF s])
  have "filter (resolved env) (primaryMuscles q) = []"
    and "filter (resolved env) (secondaryMuscles q) = []"
    using p s by (simp_all add: filter_empty_conv)
  then have "collect tintCall (fst (handler env completion (present q))) = []"
    by (simp add: handler_tint_calls startTrace_tint_calls)
  moreover have "snd (handler env completion (present q)) = pngResponse buf"
    using assms(2) by (simp add: handler_tints_ok [OF none] layers)
  moreover have
    "collect compositeCall (fst (handler env completion (present q))) = [(selectedBase q, [])]"
    by (simp add: handler_composite_calls none layers)
  ultimately show ?thesis by simp
qed

theorem no_valid_muscle_renders_base_witness:
  "primaryMuscles noParameters @ secondaryMuscles noParameters = [] \<and>
   primaryMuscles nothingValidRequest @ secondaryMuscles nothingValidRequest =
     [''nope'', '' '', ''triceps''] \<and>
   \<not> resolved sampleEnv ''nope'' \<and> \<not> resolved sampleEnv '' '' \<and>
   \<not> resolved sampleEnv ''triceps'' \<and>
   snd (handler sampleEnv id (present noParameters)) = pngResponse [255] \<and>
   snd (handler sampleEnv id (present nothingValidRequest)) = pngResponse [0] \<and>
   collect compositeCall (fst (handler sampleEnv id (present nothingValidRequest))) =
     [(PathResolve ''../images/baseImage_transparent.png'', [])] \<and>
   collect tintCall (fst (handler sampleEnv id (present nothingValidRequest))) = []"
proof -
  have e: "primaryMuscles noParameters @ secondaryMuscles noParameters = []"
    by code_simp
  have e': "\<forall>m\<in>set (primaryMuscles noParameters @ secondaryMuscles noParameters).
              \<not> resolved sampleEnv m"
    unfolding e by simp
  have n: "primaryMuscles nothingValidRequest @ secondaryMuscles nothingValidRequest =
           [''nope'', '' '', ''triceps'']"
    by code_simp
  have r: "\<not> resolved sampleEnv ''nope''" "\<not> resolved sampleEnv '' ''"
    "\<not> resolved sampleEnv ''triceps''"
    by code_simp+
  have n': "\<forall>m\<in>set (primaryMuscles nothingValidRequest @ secondaryMuscles nothingValidRequest).
              \<not> resolved sampleEnv m"
    unfolding n using r by simp
  have b: "selectedBase noParameters = PathResolve ''../images/baseImage.png''"
    "selectedBase nothingValidRequest = PathResolve ''../images/baseImage_transparent.png''"
    by code_simp+
  have c: "sharp_composite sampleEnv (selectedBase noParameters) [] = Inr [255]"
    "sharp_composite sampleEnv (selectedBase nothingValidRequest) [] = Inr [0]"
    unfolding b by code_simp+
  show ?thesis
    using no_valid_muscle_renders_base [OF e' c(1), of id]
      no_valid_muscle_renders_base [OF n' c(2), of id] b e n r
    by simp
qed

lemma createTintedLayer_unresolved:
  assumes "\<not> resolved env muscle"
  shows "snd (createTintedLayer env muscle rgb) = Fulfilled None"
  using assms by (simp add: createTintedLayer_settles tintError_def tinted_def)

subsection \<open>Identifiers that fail validation\<close>

text \<open>
  C2. For an identifier that is not on the allow-list or has no asset,
  \<open>createTintedLayer\<close> warns, starts no tint and returns null. Such identifiers
  contribute no layer: the layers and the tint rejections of a request are those of its
  validated identifiers alone. A request that mixes them with valid identifiers answers
  with the success status and the composite of exactly the valid layers, whenever the
  sharp pipelines of the valid layers and of the composite succeed.
\<close>

theorem invalid_identifier_contributes_no_layer:
  "(\<not> resolved env muscle \<longrightarrow>
      snd (createTintedLayer env muscle rgb) = Fulfilled None \<and>
      collect warning (fst (createTintedLayer env muscle rgb)) =
        [if muscle \<in> set availableMuscleGroups
         then ''Image file not found for muscle: '' @ muscle
         else ''Invalid muscle group requested: '' @ muscle] \<and>
      collect tintCall (fst (createTintedLayer env muscle rgb)) = []) \<and>
   requestOrderLayers env q =
     List.map_filter (tinted env (primaryColorRgb env q))
       (filter (resolved env) (primaryMuscles q)) @
     List.map_filter (tinted env (secondaryColorRgb env q))
       (filter (resolved env) (secondaryMuscles q)) \<and>
   tintErrors env q =
     List.map_filter (tintError env (primaryColorRgb env q))
       (filter (resolved env) (primaryMuscles q)) @
     List.map_filter (tintError env (secondaryColorRgb env q))
       (filter (resolved env) (secondaryMuscles q)) \<and>
   (tintErrors env q = [] \<and>
    sharp_composite env (selectedBase q) (map Overlay (requestOrderLayers env q)) = Inr buf \<longrightarrow>
      snd (handler env completion (present q)) = pngResponse buf \<and>
      collect compositeCall (fst (handler env completion (present q))) =
        [(selectedBase q, map Overlay (requestOrderLayers env q))])"
proof (intro conjI impI)
  assume "\<not> resolved env muscle"
  then show "snd (createTintedLayer env muscle rgb) = Fulfilled None"
    by (rule createTintedLayer_unresolved)
next
  assume "\<not> resolved env muscle"
  then show "collect warning (fst (createTintedLayer env muscle rgb)) =
        [if muscle \<in> set availableMuscleGroups
         then ''Image file not found for muscle: '' @ muscle
         else ''Invalid muscle group requested: '' @ muscle]"
    by (simp add: createTintedLayer_warnings resolved_def)
next
  assume "\<not> resolved env muscle"
  then show "collect tintCall (fst (createTintedLayer env muscle rgb)) = []"
    by (simp add: createTintedLayer_tint_calls)
next
  show "requestOrderLayers env q =
     List.map_filter (tinted env (primaryColorRgb env q))
       (filter (resolved env) (primaryMuscles q)) @
     List.map_filter (tinted env (secondaryColorRgb env q))
       (filter (resolved env) (secondaryMuscles q))"
    by (simp add: requestOrderLayers_def map_filter_resolved)
next
  show "tintErrors env q =
     List.map_filter (tintError env (primaryColorRgb env q))
       (filter (resolved env) (primaryMuscles q)) @
     List.map_filter (tintError env (secondaryColorRgb env q))
       (filter (resolved env) (secondaryMuscles q))"
    by (simp add: tintErrors_def map_filter_resolved)
next
  assume a: "tintErrors env q = [] \<and>
    sharp_composite env (selectedBase q) (map Overlay (requestOrderLayers env q)) = Inr buf"
  then show "snd (handler env completion (present q)) = pngResponse buf"
    by (simp add: handler_tints_ok)
  from a show "collect compositeCall (fst (handler env completion (present q))) =
        [(selectedBase q, map Overlay (requestOrderLayers env q))]"
    by (simp add: handler_composite_calls)
qed

theorem invalid_identifier_contributes_no_layer_witness:
  "\<not> resolved sampleEnv ''not_a_muscle'' \<and>
   createTintedLayer sampleEnv ''not_a_muscle'' [] =
     ([ConsoleWarn ''Invalid muscle group requested: not_a_muscle''], Fulfilled None) \<and>
   filter (resolved sampleEnv) (primaryMuscles mixedRequest) = [''biceps''] \<and>
   filter (resolved sampleEnv) (secondaryMuscles mixedRequest) = [] \<and>
   requestOrderLayers sampleEnv mixedRequest = [[1]] \<and>
   tintErrors sampleEnv mixedRequest = [] \<and>
   snd (handler sampleEnv id (present mixedRequest)) = pngResponse [255, 1] \<and>
   statusCode (snd (handler sampleEnv id (present mixedRequest))) = 200 \<and>
   collect compositeCall (fst (handler sampleEnv id (present mixedRequest))) =
     [(PathResolve ''../images/baseImage.png'', [Overlay [1]])]"
proof -
  have u: "\<not> resolved sampleEnv ''not_a_muscle''"
    by code_simp
  have w: "createTintedLayer sampleEnv ''not_a_muscle'' [] =
     ([ConsoleWarn ''Invalid muscle group requested: not_a_muscle''], Fulfilled None)"
    by code_simp
  have f: "filter (resolved sampleEnv) (primaryMuscles mixedRequest) = [''biceps'']"
    "filter (resolved sampleEnv) (secondaryMuscles mixedRequest) = []"
    by code_simp+
  have t: "tinted sampleEnv (primaryColorRgb sampleEnv mixedRequest) ''biceps'' = Some [1]"
    "tintError sampleEnv (primaryColorRgb sampleEnv mixedRequest) ''biceps'' = None"
    by code_simp+
  have b: "selectedBase mixedRequest = PathResolve ''../images/baseImage.png''"
    by code_simp
  have c: "sharp_composite sampleEnv (PathResolve ''../images/baseImage.png'') [Overlay [1]] =
      Inr [255, 1]"
    by code_simp
  show ?thesis
    using invalid_identifier_contributes_no_layer
      [of sampleEnv "''not_a_muscle''" "[]" mixedRequest "[255, 1]" id] u w f t b c
    by (simp add: List.map_filter_simps pngResponse_def)
qed

subsection \<open>Failures\<close>

text \<open>
  C3, as the claim states it, fails: when the tint pipeline of one muscle layer rejects
  (a damaged asset that exists), the request is aborted with the error response, although
  the base canvas and the other layer are sound.
\<close>

theorem damaged_layer_aborts_request:
  "resolved sampleEnv ''abs'' \<and>
   sharp_tint sampleEnv (musclePath ''abs'') (tintArg (primaryColorRgb sampleEnv damagedLayerRequest))
     = Inl ''pngload: end of stream'' \<and>
   sharp_composite sampleEnv (selectedBase damagedLayerRequest) [Overlay [1]] = Inr [255, 1] \<and>
   snd (handler sampleEnv id (present damagedLayerRequest)) =
     \<lparr>statusCode = 500, headers = None,
      body = ErrorJson ''Failed to generate image.'' (SharpError ''pngload: end of stream''),
      isBase64Encoded = None\<rparr>"
  by code_simp

text \<open>
  C3, amended. A layer that fails validation (unknown identifier or missing asset) never
  makes the request fail. The rejection of any tint pipeline, the failure of the
  composite and encode on the base canvas, and a missing query-parameters object are each
  fatal: the failure is logged once and answered with the structured error response
  (message, detail and status 500, no binary body). Otherwise the answer is the PNG
  bytes with content type image/png and status 200.
\<close>

theorem failures_become_one_error_response:
  "(queryStringParameters ev = None \<longrightarrow>
      snd (handler env completion ev) = errorResponse DestructureTypeError) \<and>
   (tintErrors env q \<noteq> [] \<longrightarrow>
      (\<exists>msg. msg \<in> set (tintErrors env q) \<and>
         snd (handler env completion (present q)) = errorResponse (SharpError msg))) \<and>
   (tintErrors env q = [] \<and>
    sharp_composite env (selectedBase q) (map Overlay (requestOrderLayers env q)) = Inl msg' \<longrightarrow>
      snd (handler env completion (present q)) = errorResponse (SharpError msg')) \<and>
   (tintErrors env q = [] \<and>
    sharp_composite env (selectedBase q) (map Overlay (requestOrderLayers env q)) = Inr buf \<longrightarrow>
      snd (handler env completion (present q)) = pngResponse buf) \<and>
   ((\<forall>m\<in>set (primaryMuscles q @ secondaryMuscles q). \<not> resolved env m) \<longrightarrow>
      tintErrors env q = []) \<and>
   collect loggedError (fst (handler env completion ev)) =
     (case body (snd (handler env completion ev)) of
        ErrorJson text err \<Rightarrow> [err]
      | Base64String bytes \<Rightarrow> [])"
proof (intro conjI impI)
  assume "queryStringParameters ev = None"
  then have "ev = \<lparr>queryStringParameters = None\<rparr>"
    by (cases ev) simp
  then show "snd (handler env completion ev) = errorResponse DestructureTypeError"
    by (simp add: handler_absent)
next
  assume "tintErrors env q \<noteq> []"
  from handler_tint_rejected [OF this, of completion]
  show "\<exists>msg. msg \<in> set (tintErrors env q) \<and>
         snd (handler env completion (present q)) = errorResponse (SharpError msg)"
    by (auto simp: catch_block_eq)
next
  assume "tintErrors env q = [] \<and>
    sharp_composite env (selectedBase q) (map Overlay (requestOrderLayers env q)) = Inl msg'"
  then show "snd (handler env completion (present q)) = errorResponse (SharpError msg')"
    by (simp add: handler_tints_ok catch_block_eq)
next
  assume "tintErrors env q = [] \<and>
    sharp_composite env (selectedBase q) (map Overlay (requestOrderLayers env q)) = Inr buf"
  then show "snd (handler env completion (present q)) = pngResponse buf"
    by (simp add: handler_tints_ok)
next
  assume "\<forall>m\<in>set (primaryMuscles q @ secondaryMuscles q). \<not> resolved env m"
  then have "\<forall>m\<in>set (primaryMuscles q). \<not> resolved env m"
    and "\<forall>m\<in>set (secondaryMuscles q). \<not> resolved env m"
    by simp_all
  then show "tintErrors env q = []"
    by (simp add: tintErrors_def unresolved_no_layer)
next
  show "collect loggedError (fst (handler env completion ev)) =
     (case body (snd (handler env completion ev)) of
        ErrorJson text err \<Rightarrow> [err]
      | Base64String bytes \<Rightarrow> [])"
  proof (cases "queryStringParameters ev")
    case None
    then have "ev = \<lparr>queryStringParameters = None\<rparr>"
      by (cases ev) simp
    then show ?thesis
      by (simp add: handler_absent errorResponse_def collect_def)
  next
    case (Some q')
    then have ev: "ev = present q'"
      by (cases ev) (simp add: present_def)
    show ?thesis
      using handler_cases [of env q' completion] unfolding ev
      by (auto simp: collect_append startTrace_no_error errorResponse_def pngResponse_def)
        (simp_all add: collect_def)
  qed
qed

theorem failures_become_one_error_response_witness:
  "snd (handler sampleEnv id \<lparr>queryStringParameters = None\<rparr>) =
     errorResponse DestructureTypeError \<and>
   tintErrors sampleEnv damagedLayerRequest = [''pngload: end of stream''] \<and>
   snd (handler sampleEnv id (present damagedLayerRequest)) =
     errorResponse (SharpError ''pngload: end of stream'') \<and>
   collect loggedError (fst (handler sampleEnv id (present damagedLayerRequest))) =
     [SharpError ''pngload: end of stream''] \<and>
   tintErrors brokenBaseEnv mixedRequest = [] \<and>
   snd (handler brokenBaseEnv id (present mixedRequest)) =
     errorResponse (SharpError ''Input file is missing'') \<and>
   tintErrors sampleEnv mixedRequest = [] \<and>
   snd (handler sampleEnv id (present mixedRequest)) = pngResponse [255, 1] \<and>
   collect loggedError (fst (handler sampleEnv id (present mixedRequest))) = []"
proof -
  have n: "queryStringParameters \<lparr>queryStringParameters = None\<rparr> = None"
    by simp
  have d: "tintErrors sampleEnv damagedLayerRequest = [''pngload: end of stream'']"
    by code_simp
  have m: "tintErrors sampleEnv mixedRequest = []" "tintErrors brokenBaseEnv mixedRequest = []"
    by code_simp+
  have c: "sharp_composite sampleEnv (selectedBase mixedRequest)
       (map Overlay (requestOrderLayers sampleEnv mixedRequest)) = Inr [255, 1]"
    by code_simp
  have c': "sharp_composite brokenBaseEnv (selectedBase mixedRequest)
       (map Overlay (requestOrderLayers brokenBaseEnv mixedRequest)) = Inl ''Input file is missing''"
    by code_simp
  note t = failures_become_one_error_response
  show ?thesis
    using t [of "\<lparr>queryStringParameters = None\<rparr>" sampleEnv id damagedLayerRequest]
      t [of "present damagedLayerRequest" sampleEnv id damagedLayerRequest]
      t [of "present mixedRequest" sampleEnv id mixedRequest _ "[255, 1]"]
      t [of "present mixedRequest" brokenBaseEnv id mixedRequest "''Input file is missing''"]
      n d m c c'
    by (auto simp: errorResponse_def pngResponse_def)
qed

lemma set_collect: "set (collect f es) = (\<Union>e\<in>set es. set (f e))"
  by (simp add: collect_def)

lemma createTintedLayer_paths:
  "set (collect touchedPath (fst (createTintedLayer env muscle rgb))) =
     (if muscle \<in> set availableMuscleGroups then {musclePath muscle} else {})"
  by (simp add: createTintedLayer_def collect_def Let_def)

lemma startTrace_paths:
  "set (collect touchedPath (startTrace env q)) \<subseteq> musclePath ` set availableMuscleGroups"
  by (auto simp: startTrace_def collect_append collect_concat_map createTintedLayer_paths
      split: if_splits)

lemma selectedBase_allowed: "selectedBase q \<in> set allowedPaths"
  by (simp add: selectedBase_def baseImagePath_def allowedPaths_def)

lemma handler_paths:
  "set (collect touchedPath (fst (handler env c ev))) \<subseteq> set allowedPaths"
proof (cases "queryStringParameters ev")
  case None
  then have "ev = \<lparr>queryStringParameters = None\<rparr>"
    by (cases ev) simp
  then show ?thesis
    by (simp add: handler_absent collect_def)
next
  case (Some q)
  then have ev: "ev = present q"
    by (cases ev) (simp add: present_def)
  have s: "set (collect touchedPath (startTrace env q)) \<subseteq> set allowedPaths"
    using startTrace_paths [of env q] by (auto simp: allowedPaths_def)
  have b: "selectedBase q \<in> set allowedPaths"
    by (rule selectedBase_allowed)
  have 1: "set (collect touchedPath [ConsoleError e :: 'a effect]) = {}" for e
    by (simp add: collect_def)
  have 2: "set (collect touchedPath [SharpComposite p ls :: 'a effect]) = {p}" for p ls
    by (simp add: collect_def)
  have 3: "set (collect touchedPath [SharpComposite p ls, ConsoleError e :: 'a effect]) = {p}"
    for p ls e
    by (simp add: collect_def)
  show ?thesis
    using handler_cases [of env q c] s b unfolding ev
    by (auto simp: collect_append 1 2 3)
qed

lemma js_index_map:
  "i < length xs \<Longrightarrow> js_index (map f xs) i = Some (f (xs ! i))"
  by (simp add: js_index_def)

subsection \<open>The allow-list as a security boundary\<close>

text \<open>
  C4. Every path the handler hands to the file system or to sharp is one of 29 fixed
  paths: the two base images and the asset of an allow-list entry. For an identifier
  that is not on the allow-list \<open>createTintedLayer\<close> builds no path at all; for one that
  is, the only path is \<open>../images/<identifier>.png\<close>, and the entries of the allow-list
  consist of lower-case letters and underscores, so no such path leaves the image
  directory.
\<close>

theorem paths_built_from_allow_list_only:
  "set (collect touchedPath (fst (handler env completion ev))) \<subseteq> set allowedPaths \<and>
   (muscle \<notin> set availableMuscleGroups \<longrightarrow>
      collect touchedPath (fst (createTintedLayer env muscle rgb)) = []) \<and>
   (muscle \<in> set availableMuscleGroups \<longrightarrow>
      set (collect touchedPath (fst (createTintedLayer env muscle rgb))) =
        {PathResolve (''../images/'' @ muscle @ ''.png'')}) \<and>
   (\<forall>m\<in>set availableMuscleGroups. set m \<subseteq> set ''abcdefghijklmnopqrstuvwxyz_'') \<and>
   length allowedPaths = 29"
proof (intro conjI impI)
  show "set (collect touchedPath (fst (handler env completion ev))) \<subseteq> set allowedPaths"
    by (rule handler_paths)
next
  assume "muscle \<notin> set availableMuscleGroups"
  then show "collect touchedPath (fst (createTintedLayer env muscle rgb)) = []"
    by (simp add: createTintedLayer_def collect_def)
next
  assume "muscle \<in> set availableMuscleGroups"
  then show "set (collect touchedPath (fst (createTintedLayer env muscle rgb))) =
        {PathResolve (''../images/'' @ muscle @ ''.png'')}"
    by (simp add: createTintedLayer_paths musclePath_def)
next
  show "\<forall>m\<in>set availableMuscleGroups. set m \<subseteq> set ''abcdefghijklmnopqrstuvwxyz_''"
    by (simp add: availableMuscleGroups_def)
next
  show "length allowedPaths = 29"
    by (simp add: allowedPaths_def availableMuscleGroups_def)
qed

theorem paths_built_from_allow_list_only_witness:
  "''../../etc/passwd'' \<notin> set availableMuscleGroups \<and>
   collect touchedPath (fst (createTintedLayer sampleEnv ''../../etc/passwd'' [])) = [] \<and>
   ''biceps'' \<in> set availableMuscleGroups \<and>
   set ''biceps'' \<subseteq> set ''abcdefghijklmnopqrstuvwxyz_'' \<and>
   collect touchedPath (fst (handler sampleEnv id (present traversalRequest))) =
     [PathResolve ''../images/biceps.png'', PathResolve ''../images/biceps.png'',
      PathResolve ''../images/baseImage.png''] \<and>
   set [PathResolve ''../images/biceps.png'', PathResolve ''../images/biceps.png'',
        PathResolve ''../images/baseImage.png''] \<subseteq> set allowedPaths"
proof -
  have a: "''../../etc/passwd'' \<notin> set availableMuscleGroups"
    by code_simp
  have b: "''biceps'' \<in> set availableMuscleGroups"
    by code_simp
  have t: "collect touchedPath (fst (handler sampleEnv id (present traversalRequest))) =
     [PathResolve ''../images/biceps.png'', PathResolve ''../images/biceps.png'',
      PathResolve ''../images/baseImage.png'']"
    by code_simp
  show ?thesis
    using paths_built_from_allow_list_only
      [of sampleEnv id "present traversalRequest" "''../../etc/passwd''" "[]"]
      paths_built_from_allow_list_only
      [of sampleEnv id "present traversalRequest" "''biceps''" "[]"]
      a b t
    by auto
qed

lemma js_split_not_Nil: "js_split s \<noteq> []"
  by (induction s) (simp_all split: list.splits)

lemma joinComma_Cons_head: "joinComma ((c # w) # ws) = c # joinComma (w # ws)"
  by (cases ws) simp_all

lemma joinComma_Cons: "ts \<noteq> [] \<Longrightarrow> joinComma (t # ts) = t @ CHR '','' # joinComma ts"
  by (cases ts) simp_all

lemma joinComma_js_split: "joinComma (js_split s) = s"
proof (induction s)
  case Nil
  show ?case by simp
next
  case (Cons c cs)
  show ?case
  proof (cases "c = CHR '',''")
    case True
    then show ?thesis
      by (simp add: joinComma_Cons js_split_not_Nil Cons.IH)
  next
    case False
    obtain w ws where w: "js_split cs = w # ws"
      using js_split_not_Nil [of cs] by (cases "js_split cs") auto
    with False Cons.IH show ?thesis
      by (simp add: joinComma_Cons_head)
  qed
qed

lemma js_split_no_comma: "\<forall>t\<in>set (js_split s). CHR '','' \<notin> set t"
  by (induction s) (auto split: list.splits)

lemma js_split_token: "CHR '','' \<notin> set t \<Longrightarrow> js_split t = [t]"
  by (induction t) auto

lemma js_split_append:
  "CHR '','' \<notin> set t \<Longrightarrow> js_split (t @ CHR '','' # rest) = t # js_split rest"
  by (induction t) auto

lemma js_split_joinComma:
  "ts \<noteq> [] \<Longrightarrow> \<forall>t\<in>set ts. CHR '','' \<notin> set t \<Longrightarrow> js_split (joinComma ts) = ts"
proof (induction ts rule: joinComma.induct)
  case 1
  then show ?case by simp
next
  case (2 t)
  then show ?case by (simp add: js_split_token)
next
  case (3 t u us)
  then show ?case by (simp add: js_split_append)
qed

lemma muscleList_joinComma: "muscleList (joinComma (muscleList s)) = muscleList s"
proof (cases "muscleList s = []")
  case True
  then show ?thesis by (simp add: muscleList_def js_Boolean_def)
next
  case False
  have "\<forall>t\<in>set (muscleList s). CHR '','' \<notin> set t"
    using js_split_no_comma [of s] by (simp add: muscleList_def)
  with False have "js_split (joinComma (muscleList s)) = muscleList s"
    by (rule js_split_joinComma)
  then show ?thesis
    by (simp add: muscleList_def)
qed

lemma handler_same_lists:
  assumes "primaryMuscles q = primaryMuscles q'" and "secondaryMuscles q = secondaryMuscles q'"
    and "primary_color q = primary_color q'" and "secondary_color q = secondary_color q'"
    and "transparent q = transparent q'"
  shows "handler env c (present q) = handler env c (present q')"
proof -
  have "startTrace env q = startTrace env q'" and "settledTasks env q = settledTasks env q'"
    and "selectedBase q = selectedBase q'"
    using assms
    by (simp_all add: startTrace_def settledTasks_def primaryColorRgb_def
        secondaryColorRgb_def selectedBase_def)
  then show ?thesis
    by (simp only: handler_present)
qed

lemma blank_not_available: "isBlank t \<Longrightarrow> t \<notin> set availableMuscleGroups"
  by (auto simp: isBlank_def availableMuscleGroups_def)

subsection \<open>Empty and blank entries\<close>

text \<open>
  C9, as the claim states it, fails for blank entries: a whitespace-only entry is truthy,
  so \<open>filter(Boolean)\<close> keeps it, and it reaches the validation of
  \<open>createTintedLayer\<close>, which warns about it.
\<close>

theorem blank_entry_reaches_validation:
  "isBlank '' '' \<and>
   muscleList ''biceps, ,chest'' = [''biceps'', '' '', ''chest''] \<and>
   collect warning (fst (handler sampleEnv id (present blankEntryRequest))) =
     [''Invalid muscle group requested:  '']"
  by code_simp

text \<open>
  C9, amended. The identifier list is the split of the string at its commas (joining the
  pieces with commas gives the string back, and no piece holds a comma) without the empty
  pieces. Empty entries have no effect of any kind: the handler behaves as on the list
  without them. A blank entry is not discarded; it fails the allow-list check, which
  warns, starts no tint and yields no layer and no error.
\<close>

theorem empty_entries_dropped_blank_entries_validated:
  "joinComma (js_split s) = s \<and>
   (\<forall>t\<in>set (js_split s). CHR '','' \<notin> set t) \<and>
   muscleList s = filter (\<lambda>t. t \<noteq> []) (js_split s) \<and>
   handler env completion (present (q\<lparr>primary_muscles := Some s, secondary_muscles := Some s'\<rparr>)) =
   handler env completion
     (present (q\<lparr>primary_muscles := Some (joinComma (muscleList s)),
                 secondary_muscles := Some (joinComma (muscleList s'))\<rparr>)) \<and>
   (isBlank t \<longrightarrow>
      createTintedLayer env t rgb =
        ([ConsoleWarn (''Invalid muscle group requested: '' @ t)], Fulfilled None))"
proof (intro conjI impI)
  show "joinComma (js_split s) = s"
    by (rule joinComma_js_split)
  show "\<forall>t\<in>set (js_split s). CHR '','' \<notin> set t"
    by (rule js_split_no_comma)
  show "muscleList s = filter (\<lambda>t. t \<noteq> []) (js_split s)"
    unfolding muscleList_def by (rule filter_cong) (simp_all add: js_Boolean_def)
  show "handler env completion
          (present (q\<lparr>primary_muscles := Some s, secondary_muscles := Some s'\<rparr>)) =
        handler env completion
          (present (q\<lparr>primary_muscles := Some (joinComma (muscleList s)),
                      secondary_muscles := Some (joinComma (muscleList s'))\<rparr>))"
    by (rule handler_same_lists)
      (simp_all add: primaryMuscles_def secondaryMuscles_def or_default_def muscleList_joinComma)
next
  assume "isBlank t"
  then show "createTintedLayer env t rgb =
        ([ConsoleWarn (''Invalid muscle group requested: '' @ t)], Fulfilled None)"
    by (simp add: createTintedLayer_def blank_not_available)
qed

theorem empty_entries_dropped_blank_entries_validated_witness:
  "js_split '',biceps,,chest,'' = ['''', ''biceps'', '''', ''chest'', ''''] \<and>
   muscleList '',biceps,,chest,'' = [''biceps'', ''chest''] \<and>
   joinComma (muscleList '',biceps,,chest,'') = ''biceps,chest'' \<and>
   joinComma (muscleList '','') = '''' \<and>
   handler sampleEnv id
     (present (noParameters\<lparr>primary_muscles := Some '',biceps,,chest,'',
                            secondary_muscles := Some '',''\<rparr>)) =
   handler sampleEnv id
     (present (noParameters\<lparr>primary_muscles := Some ''biceps,chest'',
                            secondary_muscles := Some ''''\<rparr>)) \<and>
   isBlank [CHR '' '', CHR 0x09] \<and>
   createTintedLayer sampleEnv [CHR '' '', CHR 0x09] [] =
     ([ConsoleWarn (''Invalid muscle group requested: '' @ [CHR '' '', CHR 0x09])],
      Fulfilled None)"
proof -
  have s: "js_split '',biceps,,chest,'' = ['''', ''biceps'', '''', ''chest'', '''']"
    by code_simp
  have m: "muscleList '',biceps,,chest,'' = [''biceps'', ''chest'']"
    "muscleList '','' = []"
    by code_simp+
  have b: "isBlank [CHR '' '', CHR 0x09]"
    by code_simp
  show ?thesis
    using empty_entries_dropped_blank_entries_validated
      [where s = "'',biceps,,chest,''" and env = sampleEnv and completion = id
        and q = noParameters and s' = "'',''" and t = "[CHR '' '', CHR 0x09]" and rgb = "[]"]
      s m b
    by simp
qed

subsection \<open>Determinism\<close>

text \<open>
  C7, as the claim states it, fails: when two tint pipelines reject with different
  messages, \<open>Promise.all\<close> rejects with the reason of the one that settles first, and
  that reason is the detail string of the body. Two runs of the same request on the same
  assets that differ only in the order in which the tint tasks settle return different
  bodies.
\<close>

theorem rejection_detail_depends_on_completion_order:
  "body (snd (handler sampleEnv id (present twoDamagedRequest))) =
     ErrorJson ''Failed to generate image.'' (SharpError ''pngload: end of stream'') \<and>
   body (snd (handler sampleEnv reversedCompletion (present twoDamagedRequest))) =
     ErrorJson ''Failed to generate image.''
       (SharpError ''Input file contains unsupported image format'') \<and>
   body (snd (handler sampleEnv id (present twoDamagedRequest))) \<noteq>
   body (snd (handler sampleEnv reversedCompletion (present twoDamagedRequest)))"
  by code_simp

text \<open>
  C7, amended. Two runs of the same request on the same assets return the same status,
  whatever the order in which the tint tasks settle. They return the same response, and
  leave the same trace, whenever the parameters object is missing, no tint pipeline
  rejects (so in particular whenever a run succeeds), or all the tint pipelines that
  reject do so with the same message.
\<close>

theorem same_request_same_response:
  "statusCode (snd (handler env completion ev)) =
   statusCode (snd (handler env completion' ev)) \<and>
   (queryStringParameters ev = None \<longrightarrow>
      handler env completion ev = handler env completion' ev) \<and>
   (tintErrors env q = [] \<longrightarrow>
      handler env completion (present q) = handler env completion' (present q)) \<and>
   (set (tintErrors env q) = {msg} \<longrightarrow>
      handler env completion (present q) = handler env completion' (present q)) \<and>
   (statusCode (snd (handler env completion ev)) = 200 \<longrightarrow>
      handler env completion ev = handler env completion' ev)"
proof -
  have absent: "handler env completion ev = handler env completion' ev"
    if "queryStringParameters ev = None"
  proof -
    from that have "ev = \<lparr>queryStringParameters = None\<rparr>"
      by (cases ev) simp
    then show ?thesis
      by (simp add: handler_absent)
  qed
  have ok: "handler env completion (present q') = handler env completion' (present q')"
    if "tintErrors env q' = []" for q'
    using that by (simp add: handler_tints_ok)
  have one: "handler env completion (present q) = handler env completion' (present q)"
    if "set (tintErrors env q) = {msg}"
  proof -
    from that have ne: "tintErrors env q \<noteq> []"
      by (cases "tintErrors env q") simp_all
    have only: "m = msg" if "m \<in> set (tintErrors env q)" for m
      using that \<open>set (tintErrors env q) = {msg}\<close> by simp
    from handler_tint_rejected [OF ne, of completion]
    obtain m1 where "m1 \<in> set (tintErrors env q)"
      and 1: "handler env completion (present q) =
              catch_block (startTrace env q) (SharpError m1)"
      by blast
    from handler_tint_rejected [OF ne, of completion']
    obtain m2 where "m2 \<in> set (tintErrors env q)"
      and 2: "handler env completion' (present q) =
              catch_block (startTrace env q) (SharpError m2)"
      by blast
    have "m1 = msg" and "m2 = msg"
      by (rule only, fact)+
    with 1 2 show ?thesis by simp
  qed
  have rejected: "statusCode (snd (handler env c (present q'))) = 500"
    if "tintErrors env q' \<noteq> []" for c q'
  proof -
    from handler_tint_rejected [OF that, of c]
    obtain m where "handler env c (present q') = catch_block (startTrace env q') (SharpError m)"
      by blast
    then show ?thesis
      by (simp add: catch_block_eq errorResponse_def)
  qed
  have status: "statusCode (snd (handler env completion ev)) =
                statusCode (snd (handler env completion' ev))"
  proof (cases "queryStringParameters ev")
    case None
    then show ?thesis by (simp add: absent)
  next
    case (Some q')
    then have ev: "ev = present q'"
      by (cases ev) (simp add: present_def)
    show ?thesis
    proof (cases "tintErrors env q' = []")
      case True
      then show ?thesis by (simp add: ev ok)
    next
      case False
      then show ?thesis by (simp add: ev rejected)
    qed
  qed
  have success: "handler env completion ev = handler env completion' ev"
    if s: "statusCode (snd (handler env completion ev)) = 200"
  proof (cases "queryStringParameters ev")
    case None
    then show ?thesis by (rule absent)
  next
    case (Some q')
    then have ev: "ev = present q'"
      by (cases ev) (simp add: present_def)
    have "tintErrors env q' = []"
    proof (rule ccontr)
      assume "tintErrors env q' \<noteq> []"
      then have "statusCode (snd (handler env completion (present q'))) = 500"
        by (rule rejected)
      with s show False
        by (simp add: ev)
    qed
    then show ?thesis
      unfolding ev by (rule ok)
  qed
  show ?thesis
  proof (intro conjI impI)
    show "statusCode (snd (handler env completion ev)) =
          statusCode (snd (handler env completion' ev))"
      by (rule status)
  qed (rule absent ok one success, assumption)+
qed

theorem same_request_same_response_witness:
  "tintErrors sampleEnv stackedRequest = [] \<and>
   handler sampleEnv id (present stackedRequest) =
   handler sampleEnv reversedCompletion (present stackedRequest) \<and>
   set (tintErrors sampleEnv damagedLayerRequest) = {''pngload: end of stream''} \<and>
   handler sampleEnv id (present damagedLayerRequest) =
   handler sampleEnv reversedCompletion (present damagedLayerRequest) \<and>
   statusCode (snd (handler sampleEnv id (present twoDamagedRequest))) =
   statusCode (snd (handler sampleEnv reversedCompletion (present twoDamagedRequest))) \<and>
   handler sampleEnv id \<lparr>queryStringParameters = None\<rparr> =
   handler sampleEnv reversedCompletion \<lparr>queryStringParameters = None\<rparr>"
proof -
  have a: "tintErrors sampleEnv stackedRequest = []"
    by code_simp
  have b: "tintErrors sampleEnv damagedLayerRequest = [''pngload: end of stream'']"
    by code_simp
  note t = same_request_same_response
  show ?thesis
    using t [where env = sampleEnv and completion = id and completion' = reversedCompletion
          and ev = "present stackedRequest" and q = stackedRequest]
      t [where env = sampleEnv and completion = id and completion' = reversedCompletion
          and ev = "present twoDamagedRequest" and q = damagedLayerRequest
          and msg = "''pngload: end of stream''"]
      t [where env = sampleEnv and completion = id and completion' = reversedCompletion
          and ev = "\<lparr>queryStringParameters = None\<rparr>" and q = stackedRequest]
      a b
    by simp
qed

lemma handler_response:
  "snd (handler env c (present q)) =
     (case promise_all c (settledTasks env q) of
        Inl err \<Rightarrow> errorResponse err
      | Inr allLayers \<Rightarrow>
          (case sharp_composite env (selectedBase q) (push_layers [] allLayers) of
             Inl msg \<Rightarrow> errorResponse (SharpError msg)
           | Inr buf \<Rightarrow> pngResponse buf))"
  by (simp add: handler_present catch_block_eq split: sum.splits)

lemma createTintedLayer_same_outcome:
  assumes "resolved env muscle \<longrightarrow>
    sharp_tint env (musclePath muscle) (tintArg rgb) =
    sharp_tint env (musclePath muscle) (tintArg rgb')"
  shows "snd (createTintedLayer env muscle rgb) = snd (createTintedLayer env muscle rgb')"
proof -
  from assms have "tintError env rgb muscle = tintError env rgb' muscle"
    and "tinted env rgb muscle = tinted env rgb' muscle"
    by (auto simp: tintError_def tinted_def)
  then show ?thesis
    by (simp only: createTintedLayer_settles)
qed

lemma settled_same_outcome:
  assumes "\<forall>m\<in>set ms. resolved env m \<longrightarrow>
    sharp_tint env (musclePath m) (tintArg rgb) = sharp_tint env (musclePath m) (tintArg rgb')"
  shows "map (\<lambda>m. snd (createTintedLayer env m rgb)) ms =
         map (\<lambda>m. snd (createTintedLayer env m rgb')) ms"
  using assms by (simp add: createTintedLayer_same_outcome)

subsection \<open>Colours\<close>

text \<open>
  C8, as the claim states it, fails in its last clause: the not-a-number component is
  handed to \<open>tint\<close> unchanged, and where the raster library rejects such a colour the
  request is answered with status 500, while the same request with a colour of three
  numbers succeeds.
\<close>

theorem malformed_colour_rejected_by_tint:
  "collect tintCall (fst (handler nanRejectingEnv id (present malformedColourRequest))) =
     [(PathResolve ''../images/biceps.png'', (Some (Finite 255), Some NaN, None))] \<and>
   statusCode (snd (handler nanRejectingEnv id (present malformedColourRequest))) = 500 \<and>
   statusCode (snd (handler nanRejectingEnv id (present wellFormedColourRequest))) = 200"
  by code_simp

text \<open>
  C8, amended. Every comma-separated component of a colour parameter goes through
  \<open>Number\<close>, and the results at positions 0, 1 and 2 are handed to \<open>tint\<close> as r, g and b
  as they are, whatever \<open>Number\<close> returned (not-a-number included; a position past the
  end of the array is \<open>undefined\<close>). The handler has no check of its own on them: it
  answers with the error status only when a sharp pipeline rejects, and its response
  depends on the colours only through what \<open>tint\<close> returns for the validated layers.
  So a request with a malformed colour is rejected when \<open>tint\<close> rejects that colour for
  one of its validated layers, and is otherwise answered as if the colour were sound.
\<close>

theorem colour_components_pass_through:
  "collect tintCall (fst (handler env completion (present q))) =
     map (\<lambda>m. (musclePath m,
               (js_index (primaryColorRgb env q) 0, js_index (primaryColorRgb env q) 1,
                js_index (primaryColorRgb env q) 2)))
       (filter (resolved env) (primaryMuscles q)) @
     map (\<lambda>m. (musclePath m,
               (js_index (secondaryColorRgb env q) 0, js_index (secondaryColorRgb env q) 1,
                js_index (secondaryColorRgb env q) 2)))
       (filter (resolved env) (secondaryMuscles q)) \<and>
   (\<forall>i<length (js_split s).
      js_index (colorRgb env s) i = Some (js_Number env (js_split s ! i))) \<and>
   (\<forall>i\<ge>length (js_split s). js_index (colorRgb env s) i = None) \<and>
   (statusCode (snd (handler env completion (present q))) = 500 \<longrightarrow>
      tintErrors env q \<noteq> [] \<or>
      (\<exists>msg. sharp_composite env (selectedBase q) (map Overlay (requestOrderLayers env q)) =
         Inl msg)) \<and>
   ((\<forall>m\<in>set (primaryMuscles q). resolved env m \<longrightarrow>
        sharp_tint env (musclePath m) (tintArg (primaryColorRgb env q)) =
        sharp_tint env (musclePath m) (tintArg (colorRgb env pc))) \<and>
    (\<forall>m\<in>set (secondaryMuscles q). resolved env m \<longrightarrow>
        sharp_tint env (musclePath m) (tintArg (secondaryColorRgb env q)) =
        sharp_tint env (musclePath m) (tintArg (colorRgb env sc))) \<longrightarrow>
      snd (handler env completion (present q)) =
      snd (handler env completion
             (present (q\<lparr>primary_color := Some pc, secondary_color := Some sc\<rparr>)))) \<and>
   (tintErrors env q \<noteq> [] \<longrightarrow>
      statusCode (snd (handler env completion (present q))) = 500)"
proof (intro conjI impI allI)
  show "collect tintCall (fst (handler env completion (present q))) =
     map (\<lambda>m. (musclePath m,
               (js_index (primaryColorRgb env q) 0, js_index (primaryColorRgb env q) 1,
                js_index (primaryColorRgb env q) 2)))
       (filter (resolved env) (primaryMuscles q)) @
     map (\<lambda>m. (musclePath m,
               (js_index (secondaryColorRgb env q) 0, js_index (secondaryColorRgb env q) 1,
                js_index (secondaryColorRgb env q) 2)))
       (filter (resolved env) (secondaryMuscles q))"
    by (simp add: handler_tint_calls startTrace_tint_calls tintArg_def)
next
  fix i assume "i < length (js_split s)"
  then show "js_index (colorRgb env s) i = Some (js_Number env (js_split s ! i))"
    by (simp add: colorRgb_def js_index_map)
next
  fix i assume "length (js_split s) \<le> i"
  then show "js_index (colorRgb env s) i = None"
    by (simp add: colorRgb_def js_index_def)
next
  assume "statusCode (snd (handler env completion (present q))) = 500"
  then show "tintErrors env q \<noteq> [] \<or>
      (\<exists>msg. sharp_composite env (selectedBase q) (map Overlay (requestOrderLayers env q)) =
         Inl msg)"
    using handler_cases [of env q completion]
    by (auto simp: pngResponse_def)
next
  let ?q' = "q\<lparr>primary_color := Some pc, secondary_color := Some sc\<rparr>"
  assume a: "(\<forall>m\<in>set (primaryMuscles q). resolved env m \<longrightarrow>
        sharp_tint env (musclePath m) (tintArg (primaryColorRgb env q)) =
        sharp_tint env (musclePath m) (tintArg (colorRgb env pc))) \<and>
    (\<forall>m\<in>set (secondaryMuscles q). resolved env m \<longrightarrow>
        sharp_tint env (musclePath m) (tintArg (secondaryColorRgb env q)) =
        sharp_tint env (musclePath m) (tintArg (colorRgb env sc)))"
  have same: "primaryMuscles ?q' = primaryMuscles q" "secondaryMuscles ?q' = secondaryMuscles q"
    "selectedBase ?q' = selectedBase q"
    "primaryColorRgb env ?q' = colorRgb env pc" "secondaryColorRgb env ?q' = colorRgb env sc"
    by (simp_all add: primaryMuscles_def secondaryMuscles_def selectedBase_def
        primaryColorRgb_def secondaryColorRgb_def or_default_def)
  from a have p: "\<forall>m\<in>set (primaryMuscles q). resolved env m \<longrightarrow>
        sharp_tint env (musclePath m) (tintArg (primaryColorRgb env q)) =
        sharp_tint env (musclePath m) (tintArg (colorRgb env pc))"
    and s: "\<forall>m\<in>set (secondaryMuscles q). resolved env m \<longrightarrow>
        sharp_tint env (musclePath m) (tintArg (secondaryColorRgb env q)) =
        sharp_tint env (musclePath m) (tintArg (colorRgb env sc))"
    by simp_all
  have "map (\<lambda>m. snd (createTintedLayer env m (primaryColorRgb env q))) (primaryMuscles q) =
      map (\<lambda>m. snd (createTintedLayer env m (colorRgb env pc))) (primaryMuscles q)"
    and "map (\<lambda>m. snd (createTintedLayer env m (secondaryColorRgb env q))) (secondaryMuscles q) =
      map (\<lambda>m. snd (createTintedLayer env m (colorRgb env sc))) (secondaryMuscles q)"
    by (rule settled_same_outcome [OF p], rule settled_same_outcome [OF s])
  then have "settledTasks env q = settledTasks env ?q'"
    unfolding settledTasks_def same by simp
  then show "snd (handler env completion (present q)) =
             snd (handler env completion (present ?q'))"
    by (simp only: handler_response same(3))
next
  assume "tintErrors env q \<noteq> []"
  from handler_tint_rejected [OF this, of completion]
  obtain msg where
    "handler env completion (present q) = catch_block (startTrace env q) (SharpError msg)"
    by blast
  then show "statusCode (snd (handler env completion (present q))) = 500"
    by (simp add: catch_block_eq errorResponse_def)
qed

theorem colour_components_pass_through_witness:
  "js_split ''255,abc'' = [''255'', ''abc''] \<and>
   js_Number sampleEnv ''255'' = Finite 255 \<and> js_Number sampleEnv ''abc'' = NaN \<and>
   colorRgb sampleEnv ''255,abc'' = [Finite 255, NaN] \<and>
   collect tintCall (fst (handler sampleEnv id (present malformedColourRequest))) =
     [(PathResolve ''../images/biceps.png'', (Some (Finite 255), Some NaN, None))] \<and>
   statusCode (snd (handler sampleEnv id (present malformedColourRequest))) = 200 \<and>
   snd (handler sampleEnv id (present wellFormedColourRequest)) =
   snd (handler sampleEnv id
          (present (wellFormedColourRequest\<lparr>primary_color := Some ''255,abc'',
                                             secondary_color := Some ''x''\<rparr>)))"
proof -
  have s: "js_split ''255,abc'' = [''255'', ''abc'']"
    by code_simp
  have n: "js_Number sampleEnv ''255'' = Finite 255" "js_Number sampleEnv ''abc'' = NaN"
    by code_simp+
  have c: "primaryColorRgb sampleEnv malformedColourRequest = colorRgb sampleEnv ''255,abc''"
    by (simp add: primaryColorRgb_def malformedColourRequest_def noParameters_def or_default_def)
  have f: "filter (resolved sampleEnv) (primaryMuscles malformedColourRequest) = [''biceps'']"
    "filter (resolved sampleEnv) (secondaryMuscles malformedColourRequest) = []"
    by code_simp+
  have st: "statusCode (snd (handler sampleEnv id (present malformedColourRequest))) = 200"
    by code_simp
  note t = colour_components_pass_through
  have i: "js_index (colorRgb sampleEnv ''255,abc'') 0 = Some (Finite 255)"
    "js_index (colorRgb sampleEnv ''255,abc'') 1 = Some NaN"
    "js_index (colorRgb sampleEnv ''255,abc'') 2 = None"
    using t [where env = sampleEnv and completion = id and q = malformedColourRequest
        and s = "''255,abc''"] s n
    by simp_all
  then have l: "colorRgb sampleEnv ''255,abc'' = [Finite 255, NaN]"
    by (simp add: colorRgb_def s n)
  have ignored: "sharp_tint sampleEnv p colour = sharp_tint sampleEnv p colour'" for p colour colour'
    by (simp add: sampleEnv_def)
  have same: "snd (handler sampleEnv id (present wellFormedColourRequest)) =
   snd (handler sampleEnv id
          (present (wellFormedColourRequest\<lparr>primary_color := Some ''255,abc'',
                                             secondary_color := Some ''x''\<rparr>)))"
    using t [where env = sampleEnv and completion = id and q = wellFormedColourRequest
        and pc = "''255,abc''" and sc = "''x''"] ignored
    by blast
  show ?thesis
    using t [where env = sampleEnv and completion = id and q = malformedColourRequest
        and s = "''255,abc''"] s n c f st i l same
    by (simp add: musclePath_def)
qed

lemma allSupplied_values:
  "primaryMuscles (allSupplied pm sm pc sc t) = muscleList pm"
  "secondaryMuscles (allSupplied pm sm pc sc t) = muscleList sm"
  "primaryColorRgb env (allSupplied pm sm pc sc t) = colorRgb env pc"
  "secondaryColorRgb env (allSupplied pm sm pc sc t) = colorRgb env sc"
  "selectedBase (allSupplied pm sm pc sc t) = baseImagePath t"
  by (simp_all add: allSupplied_def primaryMuscles_def secondaryMuscles_def
      primaryColorRgb_def secondaryColorRgb_def selectedBase_def or_default_def)

lemma handler_trace_starts: "take (length (startTrace env q)) (fst (handler env c (present q))) = startTrace env q"
  using handler_cases [of env q c] by auto

lemma handler_no_destructure_error:
  "DestructureTypeError \<notin> set (collect loggedError (fst (handler env c (present q))))"
  using handler_cases [of env q c]
  by (auto simp: collect_append startTrace_no_error) (simp_all add: collect_def)

subsection \<open>Parameter defaults\<close>

text \<open>
  C10. Without a query-parameters object the handler does not fall back to the defaults:
  the destructuring throws, and the answer is the structured error with status 500. With
  an object the destructuring never throws, and the handler behaves as on the object in
  which every missing key holds its documented default and every supplied key its own
  value. On an object with all five keys the supplied values are the ones used: the
  calls of \<open>createTintedLayer\<close> are those of the supplied lists with the supplied
  colours, the composite starts from the base the supplied \<open>transparent\<close> selects, and
  its output is the response.
\<close>

theorem defaults_need_parameters_object:
  "handler env completion \<lparr>queryStringParameters = None\<rparr> =
     ([ConsoleError DestructureTypeError],
      \<lparr>statusCode = 500, headers = None,
       body = ErrorJson ''Failed to generate image.'' DestructureTypeError,
       isBase64Encoded = None\<rparr>) \<and>
   handler env completion (present q) = handler env completion (present (documentedDefaults q)) \<and>
   DestructureTypeError \<notin> set (collect loggedError (fst (handler env completion (present q)))) \<and>
   (let supplied = present (allSupplied pm sm pc sc t);
        started =
          concat (map (\<lambda>m. fst (createTintedLayer env m (colorRgb env pc))) (muscleList pm)) @
          concat (map (\<lambda>m. fst (createTintedLayer env m (colorRgb env sc))) (muscleList sm));
        rejected =
          List.map_filter (tintError env (colorRgb env pc)) (muscleList pm) @
          List.map_filter (tintError env (colorRgb env sc)) (muscleList sm);
        layers =
          List.map_filter (tinted env (colorRgb env pc)) (muscleList pm) @
          List.map_filter (tinted env (colorRgb env sc)) (muscleList sm)
    in take (length started) (fst (handler env completion supplied)) = started \<and>
       collect compositeCall (fst (handler env completion supplied)) =
         (if rejected = [] then [(baseImagePath t, map Overlay layers)] else []) \<and>
       (rejected = [] \<and> sharp_composite env (baseImagePath t) (map Overlay layers) = Inr buf \<longrightarrow>
          snd (handler env completion supplied) = pngResponse buf))"
proof (intro conjI)
  show "handler env completion \<lparr>queryStringParameters = None\<rparr> =
     ([ConsoleError DestructureTypeError],
      \<lparr>statusCode = 500, headers = None,
       body = ErrorJson ''Failed to generate image.'' DestructureTypeError,
       isBase64Encoded = None\<rparr>)"
    by (simp add: handler_absent errorResponse_def)
next
  show "handler env completion (present q) =
        handler env completion (present (documentedDefaults q))"
    unfolding handler_def present_def
    by (simp add: or_default_documented)
next
  show "DestructureTypeError \<notin> set (collect loggedError (fst (handler env completion (present q))))"
    by (rule handler_no_destructure_error)
next
  let ?q = "allSupplied pm sm pc sc t"
  have st: "startTrace env ?q =
          concat (map (\<lambda>m. fst (createTintedLayer env m (colorRgb env pc))) (muscleList pm)) @
          concat (map (\<lambda>m. fst (createTintedLayer env m (colorRgb env sc))) (muscleList sm))"
    by (simp add: startTrace_def allSupplied_values)
  have er: "tintErrors env ?q =
          List.map_filter (tintError env (colorRgb env pc)) (muscleList pm) @
          List.map_filter (tintError env (colorRgb env sc)) (muscleList sm)"
    by (simp add: tintErrors_def allSupplied_values)
  have ly: "requestOrderLayers env ?q =
          List.map_filter (tinted env (colorRgb env pc)) (muscleList pm) @
          List.map_filter (tinted env (colorRgb env sc)) (muscleList sm)"
    by (simp add: requestOrderLayers_def allSupplied_values)
  have 1: "take (length (startTrace env ?q)) (fst (handler env completion (present ?q))) =
           startTrace env ?q"
    by (rule handler_trace_starts)
  have 2: "collect compositeCall (fst (handler env completion (present ?q))) =
         (if tintErrors env ?q = []
          then [(baseImagePath t, map Overlay (requestOrderLayers env ?q))] else [])"
    by (simp add: handler_composite_calls allSupplied_values)
  have 3: "tintErrors env ?q = [] \<and>
       sharp_composite env (baseImagePath t) (map Overlay (requestOrderLayers env ?q)) = Inr buf
       \<longrightarrow> snd (handler env completion (present ?q)) = pngResponse buf"
    by (simp add: handler_tints_ok allSupplied_values)
  from 1 2 3 show "let supplied = present (allSupplied pm sm pc sc t);
        started =
          concat (map (\<lambda>m. fst (createTintedLayer env m (colorRgb env pc))) (muscleList pm)) @
          concat (map (\<lambda>m. fst (createTintedLayer env m (colorRgb env sc))) (muscleList sm));
        rejected =
          List.map_filter (tintError env (colorRgb env pc)) (muscleList pm) @
          List.map_filter (tintError env (colorRgb env sc)) (muscleList sm);
        layers =
          List.map_filter (tinted env (colorRgb env pc)) (muscleList pm) @
          List.map_filter (tinted env (colorRgb env sc)) (muscleList sm)
    in take (length started) (fst (handler env completion supplied)) = started \<and>
       collect compositeCall (fst (handler env completion supplied)) =
         (if rejected = [] then [(baseImagePath t, map Overlay layers)] else []) \<and>
       (rejected = [] \<and> sharp_composite env (baseImagePath t) (map Overlay layers) = Inr buf \<longrightarrow>
          snd (handler env completion supplied) = pngResponse buf)"
    unfolding Let_def st er ly by blast
qed

theorem defaults_need_parameters_object_witness:
  "statusCode (snd (handler sampleEnv id \<lparr>queryStringParameters = None\<rparr>)) = 500 \<and>
   documentedDefaults (noParameters\<lparr>primary_muscles := Some ''biceps''\<rparr>) =
     allSupplied ''biceps'' '''' ''255,152,0'' ''255,211,144'' ''0'' \<and>
   take 2 (fst (handler sampleEnv id
                 (present (noParameters\<lparr>primary_muscles := Some ''biceps''\<rparr>)))) =
     [ExistsSync (PathResolve ''../images/biceps.png''),
      SharpTint (PathResolve ''../images/biceps.png'')
        (Some (Finite 255), Some (Finite 152), Some (Finite 0))] \<and>
   collect compositeCall
     (fst (handler sampleEnv id (present (noParameters\<lparr>primary_muscles := Some ''biceps''\<rparr>)))) =
     [(PathResolve ''../images/baseImage.png'', [Overlay [1]])] \<and>
   take 5 (fst (handler sampleEnv id
                 (present (allSupplied ''biceps,nope'' ''chest'' ''1,2,3'' ''4,5,6'' ''1'')))) =
     [ExistsSync (PathResolve ''../images/biceps.png''),
      SharpTint (PathResolve ''../images/biceps.png'')
        (Some (Finite 1), Some (Finite 2), Some (Finite 3)),
      ConsoleWarn ''Invalid muscle group requested: nope'',
      ExistsSync (PathResolve ''../images/chest.png''),
      SharpTint (PathResolve ''../images/chest.png'')
        (Some (Finite 4), Some (Finite 5), Some (Finite 6))] \<and>
   collect compositeCall
     (fst (handler sampleEnv id
            (present (allSupplied ''biceps,nope'' ''chest'' ''1,2,3'' ''4,5,6'' ''1'')))) =
     [(PathResolve ''../images/baseImage_transparent.png'', [Overlay [1], Overlay [2]])] \<and>
   snd (handler sampleEnv id
          (present (allSupplied ''biceps,nope'' ''chest'' ''1,2,3'' ''4,5,6'' ''1''))) =
     pngResponse [0, 1, 2]"
proof -
  note t = defaults_need_parameters_object
  let ?p = "noParameters\<lparr>primary_muscles := Some ''biceps''\<rparr>"
  have d: "documentedDefaults ?p = allSupplied ''biceps'' '''' ''255,152,0'' ''255,211,144'' ''0''"
    by (simp add: documentedDefaults_def noParameters_def allSupplied_def)
  have s1: "concat (map (\<lambda>m. fst (createTintedLayer sampleEnv m (colorRgb sampleEnv ''255,152,0'')))
                 (muscleList ''biceps'')) @
            concat (map (\<lambda>m. fst (createTintedLayer sampleEnv m (colorRgb sampleEnv ''255,211,144'')))
                 (muscleList '''')) =
     [ExistsSync (PathResolve ''../images/biceps.png''),
      SharpTint (PathResolve ''../images/biceps.png'')
        (Some (Finite 255), Some (Finite 152), Some (Finite 0))]"
    by code_simp
  have e1: "List.map_filter (tintError sampleEnv (colorRgb sampleEnv ''255,152,0''))
              (muscleList ''biceps'') @
            List.map_filter (tintError sampleEnv (colorRgb sampleEnv ''255,211,144''))
              (muscleList '''') = []"
    by code_simp
  have l1: "List.map_filter (tinted sampleEnv (colorRgb sampleEnv ''255,152,0''))
              (muscleList ''biceps'') @
            List.map_filter (tinted sampleEnv (colorRgb sampleEnv ''255,211,144''))
              (muscleList '''') = [[1]]"
    by code_simp
  have s2: "concat (map (\<lambda>m. fst (createTintedLayer sampleEnv m (colorRgb sampleEnv ''1,2,3'')))
                 (muscleList ''biceps,nope'')) @
            concat (map (\<lambda>m. fst (createTintedLayer sampleEnv m (colorRgb sampleEnv ''4,5,6'')))
                 (muscleList ''chest'')) =
     [ExistsSync (PathResolve ''../images/biceps.png''),
      SharpTint (PathResolve ''../images/biceps.png'')
        (Some (Finite 1), Some (Finite 2), Some (Finite 3)),
      ConsoleWarn ''Invalid muscle group requested: nope'',
      ExistsSync (PathResolve ''../images/chest.png''),
      SharpTint (PathResolve ''../images/chest.png'')
        (Some (Finite 4), Some (Finite 5), Some (Finite 6))]"
    by code_simp
  have e2: "List.map_filter (tintError sampleEnv (colorRgb sampleEnv ''1,2,3''))
              (muscleList ''biceps,nope'') @
            List.map_filter (tintError sampleEnv (colorRgb sampleEnv ''4,5,6''))
              (muscleList ''chest'') = []"
    by code_simp
  have l2: "List.map_filter (tinted sampleEnv (colorRgb sampleEnv ''1,2,3''))
              (muscleList ''biceps,nope'') @
            List.map_filter (tinted sampleEnv (colorRgb sampleEnv ''4,5,6''))
              (muscleList ''chest'') = [[1], [2]]"
    by code_simp
  have b: "baseImagePath ''0'' = PathResolve ''../images/baseImage.png''"
    "baseImagePath ''1'' = PathResolve ''../images/baseImage_transparent.png''"
    by code_simp+
  have c: "sharp_composite sampleEnv (PathResolve ''../images/baseImage_transparent.png'')
             [Overlay [1], Overlay [2]] = Inr [0, 1, 2]"
    by code_simp
  have absent: "statusCode (snd (handler sampleEnv id \<lparr>queryStringParameters = None\<rparr>)) = 500"
    using t [where env = sampleEnv and completion = id and q = noParameters
        and pm = "[]" and sm = "[]" and pc = "[]" and sc = "[]" and t = "[]" and buf = "[]"]
    by simp
  have inv: "handler sampleEnv id (present ?p) =
             handler sampleEnv id
               (present (allSupplied ''biceps'' '''' ''255,152,0'' ''255,211,144'' ''0''))"
    using t [where env = sampleEnv and completion = id and q = ?p
        and pm = "[]" and sm = "[]" and pc = "[]" and sc = "[]" and t = "[]" and buf = "[]"] d
    by simp
  have first: "take 2 (fst (handler sampleEnv id (present ?p))) =
     [ExistsSync (PathResolve ''../images/biceps.png''),
      SharpTint (PathResolve ''../images/biceps.png'')
        (Some (Finite 255), Some (Finite 152), Some (Finite 0))]"
    and first': "collect compositeCall (fst (handler sampleEnv id (present ?p))) =
     [(PathResolve ''../images/baseImage.png'', [Overlay [1]])]"
    using t [where env = sampleEnv and completion = id and pm = "''biceps''" and sm = "''''"
        and pc = "''255,152,0''" and sc = "''255,211,144''" and t = "''0''"
        and q = noParameters and buf = "[]"]
    unfolding Let_def s1 e1 l1 b inv by (simp_all add: eval_nat_numeral)
  have second: "take 5 (fst (handler sampleEnv id
                 (present (allSupplied ''biceps,nope'' ''chest'' ''1,2,3'' ''4,5,6'' ''1'')))) =
     [ExistsSync (PathResolve ''../images/biceps.png''),
      SharpTint (PathResolve ''../images/biceps.png'')
        (Some (Finite 1), Some (Finite 2), Some (Finite 3)),
      ConsoleWarn ''Invalid muscle group requested: nope'',
      ExistsSync (PathResolve ''../images/chest.png''),
      SharpTint (PathResolve ''../images/chest.png'')
        (Some (Finite 4), Some (Finite 5), Some (Finite 6))]"
    and second': "collect compositeCall
     (fst (handler sampleEnv id
            (present (allSupplied ''biceps,nope'' ''chest'' ''1,2,3'' ''4,5,6'' ''1'')))) =
     [(PathResolve ''../images/baseImage_transparent.png'', [Overlay [1], Overlay [2]])]"
    and second'': "snd (handler sampleEnv id
          (present (allSupplied ''biceps,nope'' ''chest'' ''1,2,3'' ''4,5,6'' ''1''))) =
     pngResponse [0, 1, 2]"
    using t [where env = sampleEnv and completion = id and pm = "''biceps,nope''"
        and sm = "''chest''" and pc = "''1,2,3''" and sc = "''4,5,6''" and t = "''1''"
        and buf = "[0, 1, 2]" and q = noParameters] c
    unfolding Let_def s2 e2 l2 b by (simp_all add: eval_nat_numeral)
  from absent d first first' second second' second'' show ?thesis
    by (simp only: simp_thms)
qed

end
